theory Spec2Isabelle
  imports Main "HOL-Library.Word" "HOL-Library.List_Lexorder" "HOL-Library.Char_ord"
begin

section \<open>Error taxonomy (package errors)\<close>

text \<open>
  A Go \<^verbatim>\<open>error\<close> is an interface value that may be nil: it is modelled as
  \<open>error option\<close>, with \<open>None\<close> for nil. \<open>NotFound\<close> is the sentinel of package
  errors; \<open>ErrKeyNotFound\<close>, \<open>ErrEmptyKey\<close> and \<open>ErrInvalidKey\<close> are sentinels of the
  embedded engine; \<open>errorString\<close> is any error made by \<^verbatim>\<open>errors.New\<close> or reported by
  the operating system, the engine or a codec; and \<open>joinError\<close> is the value built by
  \<^verbatim>\<open>errors.Join\<close> from its non-nil arguments.
\<close>

datatype error =
    NotFound
  | ErrKeyNotFound
  | ErrEmptyKey
  | ErrInvalidKey
  | errorString string
  | joinError "error list"

fun is_in_chain :: "error \<Rightarrow> error \<Rightarrow> bool" where
  "is_in_chain (joinError es) target =
     (joinError es = target \<or> list_ex (\<lambda>e. is_in_chain e target) es)"
| "is_in_chain e target = (e = target)"

definition Is :: "error option \<Rightarrow> error \<Rightarrow> bool" where
  "Is err target = (case err of None \<Rightarrow> False | Some e \<Rightarrow> is_in_chain e target)"

definition Join :: "error option list \<Rightarrow> error option" where
  "Join errs =
     (case List.map_filter (\<lambda>e. e) errs of [] \<Rightarrow> None | es \<Rightarrow> Some (joinError es))"

definition NewNotFound :: "error option \<Rightarrow> error option" where
  "NewNotFound parentError = Join [Some NotFound, parentError]"

section \<open>Go maps and panics\<close>

text \<open>
  A Go map value is nil or an allocated table. A nil map has no entries: an index
  expression and a \<^verbatim>\<open>range\<close> see it as empty and \<^verbatim>\<open>delete\<close> does nothing on it, but
  an assignment to an entry of a nil map panics. \<open>contents\<close> gives the entries of a map,
  \<open>assign\<close> is \<^verbatim>\<open>m[k] = v\<close> (\<open>None\<close> when it panics) and \<open>delete\<close> is
  \<^verbatim>\<open>delete(m, k)\<close>. A function that can panic returns a \<open>result\<close>.
\<close>

datatype ('k, 'v) gomap = nil_map | make_map "'k \<rightharpoonup> 'v"

fun contents :: "('k, 'v) gomap \<Rightarrow> ('k \<rightharpoonup> 'v)" where
  "contents nil_map = Map.empty"
| "contents (make_map m) = m"

fun assign :: "('k, 'v) gomap \<Rightarrow> 'k \<Rightarrow> 'v \<Rightarrow> ('k, 'v) gomap option" where
  "assign nil_map k v = None"
| "assign (make_map m) k v = Some (make_map (m(k \<mapsto> v)))"

fun delete :: "('k, 'v) gomap \<Rightarrow> 'k \<Rightarrow> ('k, 'v) gomap" where
  "delete nil_map k = nil_map"
| "delete (make_map m) k = make_map (m(k := None))"

datatype 'a result = is_Return: Return (returned: 'a) | Panic string

section \<open>Snapshot file backend (package file)\<close>

text \<open>
  The provider holds its configuration, the two in-memory maps and the serialization
  format chosen at construction. \<^verbatim>\<open>New\<close> allocates both maps and then decodes the
  inline content or the file into them; a document that gives \<^verbatim>\<open>null\<close> for
  \<^verbatim>\<open>data\<close> or \<^verbatim>\<open>references\<close> leaves that map nil. The reader/writer lock serializes
  the operations; each operation is modelled as one atomic step on the provider and the
  file system.
\<close>

record Config =
  Path :: string
  Content :: string

datatype Type = jsn | yml | no_type

record ('k, 'v) data =
  DataMap :: "('k, 'v) gomap"
  References :: "('k, 'k) gomap"

record ('k, 'v) provider =
  cfg :: Config
  data :: "('k, 'v) data"
  fileType :: Type

text \<open>
  The two serializers (\<^verbatim>\<open>yaml.Marshal\<close> and \<^verbatim>\<open>json.MarshalIndent\<close>) are external
  codecs: they are parameters of the model, and either may fail.
\<close>

record ('k, 'v) marshalers =
  yaml_Marshal :: "('k, 'v) data \<Rightarrow> error + string"
  json_MarshalIndent :: "('k, 'v) data \<Rightarrow> error + string"

text \<open>
  The file system maps a path to the bytes of the file there. \<open>write_error\<close> gives, for
  each path, the error with which the operating system refuses to write it (\<open>None\<close>
  when the write goes through).
\<close>

record filesystem =
  files :: "string \<rightharpoonup> string"
  write_error :: "string \<Rightarrow> error option"

definition os_WriteFile :: "filesystem \<Rightarrow> string \<Rightarrow> string \<Rightarrow> error option \<times> filesystem" where
  "os_WriteFile fs name bytes =
     (case write_error fs name of
        Some e \<Rightarrow> (Some e, fs)
      | None \<Rightarrow> (None, fs\<lparr>files := (files fs)(name \<mapsto> bytes)\<rparr>))"

text \<open>
  \<^verbatim>\<open>saveToFile\<close>: the key type is never \<^verbatim>\<open>int\<close> (its underlying type is string or
  uint64), so the value serialized is always the whole \<^verbatim>\<open>p.data\<close>. The function does
  not read \<^verbatim>\<open>p.cfg.Content\<close>.
\<close>

definition saveToFile ::
  "('k, 'v) marshalers \<Rightarrow> ('k, 'v) provider \<Rightarrow> filesystem \<Rightarrow> error option \<times> filesystem" where
  "saveToFile m p fs =
     (case fileType p of
        yml \<Rightarrow> (case yaml_Marshal m (data p) of
                  Inl err \<Rightarrow> (Some err, fs)
                | Inr bytes \<Rightarrow> os_WriteFile fs (Path (cfg p)) bytes)
      | jsn \<Rightarrow> (case json_MarshalIndent m (data p) of
                  Inl err \<Rightarrow> (Some err, fs)
                | Inr bytes \<Rightarrow> os_WriteFile fs (Path (cfg p)) bytes)
      | no_type \<Rightarrow> (Some (errorString ''unsupported file format''), fs))"

definition Shutdown ::
  "('k, 'v) marshalers \<Rightarrow> ('k, 'v) provider \<Rightarrow> filesystem
     \<Rightarrow> error option \<times> ('k, 'v) provider \<times> filesystem" where
  "Shutdown m p fs = (case saveToFile m p fs of (err, fs') \<Rightarrow> (err, p, fs'))"

definition Store ::
  "('k, 'v) marshalers \<Rightarrow> ('k, 'v) provider \<Rightarrow> filesystem \<Rightarrow> 'k \<Rightarrow> 'v
     \<Rightarrow> (error option \<times> ('k, 'v) provider \<times> filesystem) result" where
  "Store m p fs key val =
     (case assign (DataMap (data p)) key val of
        None \<Rightarrow> Panic ''assignment to entry in nil map''
      | Some dataMap \<Rightarrow>
          (let p' = p\<lparr>data := (data p)\<lparr>DataMap := dataMap\<rparr>\<rparr>
           in case saveToFile m p' fs of (err, fs') \<Rightarrow> Return (err, p', fs')))"

definition Get :: "('k, 'v) provider \<Rightarrow> 'k \<Rightarrow> error + 'v" where
  "Get p key =
     (case contents (DataMap (data p)) key of
        None \<Rightarrow> Inl NotFound
      | Some val \<Rightarrow> Inr val)"

fun GetMultiple_loop :: "('k, 'v) provider \<Rightarrow> 'k list \<Rightarrow> 'v list \<Rightarrow> 'v list \<times> error option" where
  "GetMultiple_loop p [] vals = (vals, None)"
| "GetMultiple_loop p (key # keys) vals =
     (case Get p key of
        Inl err \<Rightarrow> ([], Some err)
      | Inr v \<Rightarrow> GetMultiple_loop p keys (vals @ [v]))"

definition GetMultiple :: "('k, 'v) provider \<Rightarrow> 'k list \<Rightarrow> 'v list \<times> error option" where
  "GetMultiple p keys = GetMultiple_loop p keys []"

definition Remove ::
  "('k, 'v) marshalers \<Rightarrow> ('k, 'v) provider \<Rightarrow> filesystem \<Rightarrow> 'k
     \<Rightarrow> error option \<times> ('k, 'v) provider \<times> filesystem" where
  "Remove m p fs key =
     (case contents (DataMap (data p)) key of
        None \<Rightarrow> (Some NotFound, p, fs)
      | Some _ \<Rightarrow>
          (let p' = p\<lparr>data := (data p)\<lparr>DataMap := delete (DataMap (data p)) key\<rparr>\<rparr>
           in case saveToFile m p' fs of (err, fs') \<Rightarrow> (err, p', fs')))"

text \<open>
  \<^verbatim>\<open>ForEach\<close> ranges over the map in an order the Go runtime chooses. The order is
  the argument \<open>entries\<close>, a list of the map's pairs (see \<open>range_order\<close>). The visitor
  is a closure: it is modelled with the state \<open>'s\<close> it updates, and returns whether to
  go on.
\<close>

definition range_order :: "('k \<rightharpoonup> 'v) \<Rightarrow> ('k \<times> 'v) list \<Rightarrow> bool" where
  "range_order m entries = (distinct (map fst entries) \<and> map_of entries = m)"

fun ForEach_loop :: "('k \<Rightarrow> 'v \<Rightarrow> 's \<Rightarrow> bool \<times> 's) \<Rightarrow> ('k \<times> 'v) list \<Rightarrow> 's \<Rightarrow> 's" where
  "ForEach_loop fn [] s = s"
| "ForEach_loop fn ((k, v) # rest) s =
     (case fn k v s of
        (True, s') \<Rightarrow> ForEach_loop fn rest s'
      | (False, s') \<Rightarrow> s')"

definition ForEach ::
  "('k, 'v) provider \<Rightarrow> ('k \<times> 'v) list \<Rightarrow> ('k \<Rightarrow> 'v \<Rightarrow> 's \<Rightarrow> bool \<times> 's) \<Rightarrow> 's
     \<Rightarrow> error option \<times> 's" where
  "ForEach p entries fn s = (None, ForEach_loop fn entries s)"

definition StoreReference ::
  "('k, 'v) marshalers \<Rightarrow> ('k, 'v) provider \<Rightarrow> filesystem \<Rightarrow> 'k \<Rightarrow> 'k
     \<Rightarrow> (error option \<times> ('k, 'v) provider \<times> filesystem) result" where
  "StoreReference m p fs reference key =
     (case assign (References (data p)) reference key of
        None \<Rightarrow> Panic ''assignment to entry in nil map''
      | Some references \<Rightarrow>
          (let p' = p\<lparr>data := (data p)\<lparr>References := references\<rparr>\<rparr>
           in case saveToFile m p' fs of (err, fs') \<Rightarrow> Return (err, p', fs')))"

definition RemoveReference ::
  "('k, 'v) marshalers \<Rightarrow> ('k, 'v) provider \<Rightarrow> filesystem \<Rightarrow> 'k
     \<Rightarrow> error option \<times> ('k, 'v) provider \<times> filesystem" where
  "RemoveReference m p fs reference =
     (case contents (References (data p)) reference of
        None \<Rightarrow> (Some NotFound, p, fs)
      | Some _ \<Rightarrow>
          (let p' = p\<lparr>data := (data p)\<lparr>References := delete (References (data p)) reference\<rparr>\<rparr>
           in case saveToFile m p' fs of (err, fs') \<Rightarrow> (err, p', fs')))"

definition GetByReference :: "('k, 'v) provider \<Rightarrow> 'k \<Rightarrow> error + 'v" where
  "GetByReference p reference =
     (case contents (References (data p)) reference of
        None \<Rightarrow> Inl NotFound
      | Some key \<Rightarrow>
          (case contents (DataMap (data p)) key of
             None \<Rightarrow> Inl NotFound
           | Some val \<Rightarrow> Inr val))"

section \<open>Embedded engine backend (package badger)\<close>

subsection \<open>The engine\<close>

text \<open>
  The engine (badger) is an external collaborator. It is modelled by the contract of the
  transaction operations the provider calls, over a keyspace that maps a key's bytes to
  a value's bytes. A write (\<^verbatim>\<open>Set\<close> or \<^verbatim>\<open>Delete\<close>) is first checked, in this order:
  the engine refuses the empty key with \<open>ErrEmptyKey\<close>, a key that starts with its
  reserved prefix \<^verbatim>\<open>!badger!\<close> with \<open>ErrInvalidKey\<close>, a key of more than 65000 bytes
  and a value larger than the limit its options set (\<open>value_limit\<close>, a parameter: the
  source opens the engine with the default options). A write that passes the check goes
  through: \<^verbatim>\<open>Set\<close> writes the pair, and \<^verbatim>\<open>Delete\<close> writes a delete marker for the key,
  whether or not the key is present, and reports nothing about its presence. \<^verbatim>\<open>Get\<close>
  refuses the empty key with \<open>ErrEmptyKey\<close> and fails with \<open>ErrKeyNotFound\<close> on a key
  that is not in the keyspace. \<^verbatim>\<open>View\<close> runs a read-only function on the keyspace;
  \<^verbatim>\<open>Update\<close> commits the writes of its function when it returns nil and discards them
  otherwise. The iterator yields the pairs in the order of the keys' bytes. Failures of
  the engine's storage are outside the model.
\<close>

type_synonym DB = "string \<rightharpoonup> string"

definition badgerPrefix :: string where
  "badgerPrefix = ''!badger!''"

definition maxKeySize :: nat where
  "maxKeySize = 65000"

definition txn_modify :: "nat \<Rightarrow> string \<Rightarrow> string \<Rightarrow> error option" where
  "txn_modify value_limit k v =
     (if k = [] then Some ErrEmptyKey
      else if take (length badgerPrefix) k = badgerPrefix then Some ErrInvalidKey
      else if length k > maxKeySize then Some (errorString ''Key exceeds the size limit'')
      else if length v > value_limit then Some (errorString ''Value exceeds the size limit'')
      else None)"

definition txn_Get :: "DB \<Rightarrow> string \<Rightarrow> error + string" where
  "txn_Get txn k =
     (if k = [] then Inl ErrEmptyKey
      else case txn k of None \<Rightarrow> Inl ErrKeyNotFound | Some val \<Rightarrow> Inr val)"

definition txn_Set :: "nat \<Rightarrow> DB \<Rightarrow> string \<Rightarrow> string \<Rightarrow> error option \<times> DB" where
  "txn_Set value_limit txn k v =
     (case txn_modify value_limit k v of
        Some err \<Rightarrow> (Some err, txn)
      | None \<Rightarrow> (None, txn(k \<mapsto> v)))"

definition txn_Delete :: "nat \<Rightarrow> DB \<Rightarrow> string \<Rightarrow> error option \<times> DB" where
  "txn_Delete value_limit txn k =
     (case txn_modify value_limit k [] of
        Some err \<Rightarrow> (Some err, txn)
      | None \<Rightarrow> (None, txn(k := None)))"

definition db_View :: "DB \<Rightarrow> (DB \<Rightarrow> error + 'a) \<Rightarrow> error + 'a" where
  "db_View db f = f db"

definition db_Update :: "DB \<Rightarrow> (DB \<Rightarrow> error option \<times> DB) \<Rightarrow> error option \<times> DB" where
  "db_Update db f =
     (case f db of
        (None, db') \<Rightarrow> (None, db')
      | (Some err, db') \<Rightarrow> (Some err, db))"

definition txn_Iterator :: "DB \<Rightarrow> (string \<times> string) list" where
  "txn_Iterator txn = map (\<lambda>k. (k, the (txn k))) (sorted_list_of_set (dom txn))"

subsection \<open>Keys and values as bytes\<close>

text \<open>
  \<open>key\<close> is a key as \<^verbatim>\<open>keyToByte\<close> receives it (\<^verbatim>\<open>k any\<close>), with its dynamic type:
  the constraint \<^verbatim>\<open>K ~string | ~uint64\<close> admits the two built-in types and every named
  type whose underlying type is one of them. \<open>key_type\<close> is the type argument \<^verbatim>\<open>K\<close> of
  the provider. The type switches of \<^verbatim>\<open>keyToByte\<close> and \<^verbatim>\<open>byteToKey\<close> match the built-in
  types only; a key of a named type takes the \<^verbatim>\<open>default\<close> branch. \<open>FormatUint\<close> and
  \<open>ParseUint\<close> are \<^verbatim>\<open>strconv.FormatUint(n, 10)\<close> and \<^verbatim>\<open>strconv.ParseUint(s, 10, 64)\<close>.
\<close>

datatype key =
    string_key string
  | uint64_key "64 word"
  | named_string_key string
  | named_uint64_key "64 word"

datatype key_type = string_type | uint64_type | named_string_type | named_uint64_type

fun has_type :: "key_type \<Rightarrow> key \<Rightarrow> bool" where
  "has_type string_type (string_key s) = True"
| "has_type uint64_type (uint64_key n) = True"
| "has_type named_string_type (named_string_key s) = True"
| "has_type named_uint64_type (named_uint64_key n) = True"
| "has_type kt k = False"

definition digit_char :: "nat \<Rightarrow> char" where
  "digit_char d = char_of (48 + d)"

fun decimal :: "nat \<Rightarrow> string" where
  "decimal n = (if n < 10 then [digit_char n] else decimal (n div 10) @ [digit_char (n mod 10)])"

declare decimal.simps [simp del]

definition FormatUint :: "64 word \<Rightarrow> string" where
  "FormatUint n = decimal (unat n)"

definition is_digit :: "char \<Rightarrow> bool" where
  "is_digit c = (48 \<le> (of_char c :: nat) \<and> (of_char c :: nat) \<le> 57)"

definition digit_value :: "char \<Rightarrow> nat" where
  "digit_value c = of_char c - 48"

definition maxUint64 :: nat where
  "maxUint64 = 2 ^ 64 - 1"

fun ParseUint_loop :: "string \<Rightarrow> nat \<Rightarrow> error + nat" where
  "ParseUint_loop [] n = Inr n"
| "ParseUint_loop (c # cs) n =
     (if \<not> is_digit c then Inl (errorString ''invalid syntax'')
      else if n \<ge> maxUint64 div 10 + 1 then Inl (errorString ''value out of range'')
      else if n * 10 + digit_value c > maxUint64 then Inl (errorString ''value out of range'')
      else ParseUint_loop cs (n * 10 + digit_value c))"

definition ParseUint :: "string \<Rightarrow> error + 64 word" where
  "ParseUint s =
     (if s = [] then Inl (errorString ''invalid syntax'')
      else case ParseUint_loop s 0 of
             Inl err \<Rightarrow> Inl err
           | Inr n \<Rightarrow> Inr (word_of_nat n))"

fun keyToByte :: "key \<Rightarrow> error + string" where
  "keyToByte (string_key s) = Inr s"
| "keyToByte (uint64_key n) = Inr (FormatUint n)"
| "keyToByte k = Inl (errorString ''unknown key type (string, uint64 supported)'')"

fun byteToKey :: "key_type \<Rightarrow> string \<Rightarrow> error + key" where
  "byteToKey string_type b = Inr (string_key b)"
| "byteToKey uint64_type b =
     (case ParseUint b of
        Inl err \<Rightarrow> Inl (errorString ''failed to convert bytes to uint64'')
      | Inr intValue \<Rightarrow> Inr (uint64_key intValue))"
| "byteToKey kt b = Inl (errorString ''unknown key type (string, uint64 supported)'')"

text \<open>
  Values are encoded with \<^verbatim>\<open>encoding/gob\<close>, an external codec: its encoder and decoder
  at the value type are parameters of the model, and either may fail.
\<close>

record 'v gob =
  gob_Encode :: "'v \<Rightarrow> error + string"
  gob_Decode :: "string \<Rightarrow> error + 'v"

definition encodeToBytes :: "'v gob \<Rightarrow> 'v \<Rightarrow> error + string" where
  "encodeToBytes g d = (case gob_Encode g d of Inl err \<Rightarrow> Inl err | Inr bytes \<Rightarrow> Inr bytes)"

definition decodeFromBytes :: "'v gob \<Rightarrow> string \<Rightarrow> error + 'v" where
  "decodeFromBytes g d = (case gob_Decode g d of Inl err \<Rightarrow> Inl err | Inr val \<Rightarrow> Inr val)"

definition mapError :: "error option \<Rightarrow> error option" where
  "mapError err = (if Is err ErrKeyNotFound then NewNotFound err else err)"

subsection \<open>The provider\<close>

text \<open>
  Besides its configuration and the engine's keyspace (\<open>db\<close>), the provider records the
  type argument \<^verbatim>\<open>K\<close> and the value limit of the engine it opened.
\<close>

record badger_Config =
  DirectoryPath :: "string option"
  InMemory :: bool

record badger_provider =
  badger_cfg :: badger_Config
  K :: key_type
  db :: DB
  value_limit :: nat

definition badger_Store :: "'v gob \<Rightarrow> badger_provider \<Rightarrow> key \<Rightarrow> 'v \<Rightarrow> error option \<times> badger_provider" where
  "badger_Store g p key val =
     (case keyToByte key of
        Inl err \<Rightarrow> (Some err, p)
      | Inr k \<Rightarrow>
          (case encodeToBytes g val of
             Inl err \<Rightarrow> (Some err, p)
           | Inr v \<Rightarrow>
               (case db_Update (db p) (\<lambda>txn. txn_Set (value_limit p) txn k v) of
                  (err, db') \<Rightarrow> (mapError err, p\<lparr>db := db'\<rparr>))))"

definition badger_Get :: "'v gob \<Rightarrow> badger_provider \<Rightarrow> key \<Rightarrow> error + 'v" where
  "badger_Get g p key =
     (case keyToByte key of
        Inl err \<Rightarrow> Inl err
      | Inr k \<Rightarrow>
          (case db_View (db p) (\<lambda>txn.
                  case txn_Get txn k of
                    Inl err \<Rightarrow> Inl err
                  | Inr val \<Rightarrow> decodeFromBytes g val) of
             Inl err \<Rightarrow> Inl (the (mapError (Some err)))
           | Inr val \<Rightarrow> Inr val))"

fun badger_GetMultiple_loop ::
  "'v gob \<Rightarrow> badger_provider \<Rightarrow> key list \<Rightarrow> 'v list \<Rightarrow> 'v list \<times> error option" where
  "badger_GetMultiple_loop g p [] vals = (vals, None)"
| "badger_GetMultiple_loop g p (key # keys) vals =
     (case badger_Get g p key of
        Inl err \<Rightarrow> ([], Some err)
      | Inr v \<Rightarrow> badger_GetMultiple_loop g p keys (vals @ [v]))"

definition badger_GetMultiple :: "'v gob \<Rightarrow> badger_provider \<Rightarrow> key list \<Rightarrow> 'v list \<times> error option" where
  "badger_GetMultiple g p keys = badger_GetMultiple_loop g p keys []"

definition badger_Remove :: "badger_provider \<Rightarrow> key \<Rightarrow> error option \<times> badger_provider" where
  "badger_Remove p key =
     (case keyToByte key of
        Inl err \<Rightarrow> (Some err, p)
      | Inr k \<Rightarrow>
          (case db_Update (db p) (\<lambda>txn. txn_Delete (value_limit p) txn k) of
             (err, db') \<Rightarrow> (mapError err, p\<lparr>db := db'\<rparr>)))"

text \<open>
  \<^verbatim>\<open>ForEach\<close> scans the whole keyspace. A visitor that returns false makes the value
  callback return the fresh error \<^verbatim>\<open>stopIterationErr\<close>, which the loop recognises and
  turns into a nil return; no other error is that value, so the model returns nil at
  once.
\<close>

fun badger_ForEach_loop ::
  "'v gob \<Rightarrow> key_type \<Rightarrow> (key \<Rightarrow> 'v \<Rightarrow> 's \<Rightarrow> bool \<times> 's) \<Rightarrow> (string \<times> string) list \<Rightarrow> 's
     \<Rightarrow> error option \<times> 's" where
  "badger_ForEach_loop g kt fn [] s = (None, s)"
| "badger_ForEach_loop g kt fn ((item_key, item_val) # rest) s =
     (case byteToKey kt item_key of
        Inl err \<Rightarrow> (Some err, s)
      | Inr key \<Rightarrow>
          (case decodeFromBytes g item_val of
             Inl err \<Rightarrow> (Some err, s)
           | Inr v \<Rightarrow>
               (case fn key v s of
                  (True, s') \<Rightarrow> badger_ForEach_loop g kt fn rest s'
                | (False, s') \<Rightarrow> (None, s'))))"

definition badger_ForEach ::
  "'v gob \<Rightarrow> badger_provider \<Rightarrow> (key \<Rightarrow> 'v \<Rightarrow> 's \<Rightarrow> bool \<times> 's) \<Rightarrow> 's \<Rightarrow> error option \<times> 's" where
  "badger_ForEach g p fn s =
     (case badger_ForEach_loop g (K p) fn (txn_Iterator (db p)) s of
        (err, s') \<Rightarrow> (mapError err, s'))"

definition badger_StoreReference :: "badger_provider \<Rightarrow> key \<Rightarrow> key \<Rightarrow> error option \<times> badger_provider" where
  "badger_StoreReference p reference key =
     (case keyToByte reference of
        Inl err \<Rightarrow> (Some err, p)
      | Inr r \<Rightarrow>
          (case keyToByte key of
             Inl err \<Rightarrow> (Some err, p)
           | Inr k \<Rightarrow>
               (case db_Update (db p) (\<lambda>txn. txn_Set (value_limit p) txn r k) of
                  (err, db') \<Rightarrow> (mapError err, p\<lparr>db := db'\<rparr>))))"

definition badger_RemoveReference :: "badger_provider \<Rightarrow> key \<Rightarrow> error option \<times> badger_provider" where
  "badger_RemoveReference p reference =
     (case keyToByte reference of
        Inl err \<Rightarrow> (Some err, p)
      | Inr r \<Rightarrow>
          (case db_Update (db p) (\<lambda>txn. txn_Delete (value_limit p) txn r) of
             (err, db') \<Rightarrow> (mapError err, p\<lparr>db := db'\<rparr>)))"


section \<open>Selector (package storage)\<close>

text \<open>
  The selector calls the constructor of the backend it selects and returns what the
  constructor returns. The two constructors open the engine or load the file; they are
  parameters of the selector.
\<close>

record KeyValueConfig =
  Badger :: "badger_Config option"
  File :: "Config option"

datatype ('b, 'f) KeyValueProvider = badger_backend 'b | file_backend 'f

definition GetKeyValueProviderFromConfig ::
  "(badger_Config \<Rightarrow> error + 'b) \<Rightarrow> (Config \<Rightarrow> error + 'f) \<Rightarrow> KeyValueConfig
     \<Rightarrow> error + ('b, 'f) KeyValueProvider" where
  "GetKeyValueProviderFromConfig badger_New file_New keyValueConfig =
     (case Badger keyValueConfig of
        Some c \<Rightarrow> map_sum (\<lambda>e. e) badger_backend (badger_New c)
      | None \<Rightarrow>
          (case File keyValueConfig of
             Some c \<Rightarrow> map_sum (\<lambda>e. e) file_backend (file_New c)
           | None \<Rightarrow> Inl (errorString ''storage provider is not configured'')))"

section \<open>Notions used in the statements\<close>

text \<open>
  \<open>key_bytes\<close> is the engine key of a provider key of a built-in type, the bytes that
  \<^verbatim>\<open>keyToByte\<close> returns for it. A key is readable when \<^verbatim>\<open>keyToByte\<close> returns bytes for
  it and the engine's \<^verbatim>\<open>Get\<close> does not refuse them, and writable when the engine's check
  of a write accepts them (\<open>accepted_key\<close>).
\<close>

definition key_bytes :: "key \<Rightarrow> string" where
  "key_bytes k = projr (keyToByte k)"

definition accepted_key :: "string \<Rightarrow> bool" where
  "accepted_key k =
     (k \<noteq> [] \<and> take (length badgerPrefix) k \<noteq> badgerPrefix \<and> length k \<le> maxKeySize)"

definition readable_key :: "key \<Rightarrow> bool" where
  "readable_key k = (case keyToByte k of Inl err \<Rightarrow> False | Inr kb \<Rightarrow> kb \<noteq> [])"

definition writable_key :: "key \<Rightarrow> bool" where
  "writable_key k = (case keyToByte k of Inl err \<Rightarrow> False | Inr kb \<Rightarrow> accepted_key kb)"

text \<open>
  What the keyspace of the engine backend holds for a readable key: an item that decodes
  to a value (\<open>holds_value\<close>), an item that holds the bytes of a key of the provider's
  key type, as \<^verbatim>\<open>StoreReference\<close> writes it (\<open>holds_alias\<close>), or no item
  (\<open>holds_nothing\<close>).
\<close>

definition holds_value :: "'v gob \<Rightarrow> badger_provider \<Rightarrow> key \<Rightarrow> 'v \<Rightarrow> bool" where
  "holds_value g p k v =
     (readable_key k
      \<and> (case db p (key_bytes k) of None \<Rightarrow> False | Some b \<Rightarrow> gob_Decode g b = Inr v))"


definition holds_nothing :: "badger_provider \<Rightarrow> key \<Rightarrow> bool" where
  "holds_nothing p k = (readable_key k \<and> db p (key_bytes k) = None)"

text \<open>
  A visitor that records each call it receives, in order, and continues as long as the
  predicate \<open>f\<close> holds; \<open>until_stop f entries\<close> is the list of entries up to and
  including the first one on which \<open>f\<close> is false.
\<close>

definition record_calls ::
  "('k \<Rightarrow> 'v \<Rightarrow> bool) \<Rightarrow> 'k \<Rightarrow> 'v \<Rightarrow> ('k \<times> 'v) list \<Rightarrow> bool \<times> ('k \<times> 'v) list" where
  "record_calls f k v calls = (f k v, calls @ [(k, v)])"

definition until_stop :: "('k \<Rightarrow> 'v \<Rightarrow> bool) \<Rightarrow> ('k \<times> 'v) list \<Rightarrow> ('k \<times> 'v) list" where
  "until_stop f entries =
     takeWhile (\<lambda>(k, v). f k v) entries @ take 1 (dropWhile (\<lambda>(k, v). f k v) entries)"

text \<open>
  An item of the engine's keyspace is a data item when its key is the bytes of a provider
  key of the provider's key type and its value decodes; \<open>decode_item\<close> is then the
  entry it holds. An item written by \<^verbatim>\<open>StoreReference\<close> holds the bytes of a key as its
  value, and is a data item only if the codec happens to decode those bytes.
\<close>

definition data_item :: "'v gob \<Rightarrow> key_type \<Rightarrow> string \<times> string \<Rightarrow> bool" where
  "data_item g kt item =
     (case byteToKey kt (fst item) of
        Inl err \<Rightarrow> False
      | Inr key \<Rightarrow>
          keyToByte key = Inr (fst item)
          \<and> (case decodeFromBytes g (snd item) of Inl err \<Rightarrow> False | Inr v \<Rightarrow> True))"

definition decode_item :: "'v gob \<Rightarrow> key_type \<Rightarrow> string \<times> string \<Rightarrow> key \<times> 'v" where
  "decode_item g kt item = (projr (byteToKey kt (fst item)), projr (decodeFromBytes g (snd item)))"

text \<open>
  The keyspace of a provider holds only data items: it is finite and each of its items is
  a data item.
\<close>

definition only_data_items :: "'v gob \<Rightarrow> badger_provider \<Rightarrow> bool" where
  "only_data_items g p =
     (finite (dom (db p)) \<and> (\<forall>item\<in>Map.graph (db p). data_item g (K p) item))"

text \<open>
  Two visitor predicates: one that always continues, and one that stops at a given key.
\<close>

definition always_continue :: "'k \<Rightarrow> 'v \<Rightarrow> bool" where
  "always_continue k v = True"

definition stop_at :: "'k \<Rightarrow> 'k \<Rightarrow> 'v \<Rightarrow> bool" where
  "stop_at k0 k v = (k \<noteq> k0)"

section \<open>Concrete instances\<close>

text \<open>
  The instances at which the model is evaluated. The two providers of the test suite are
  an in-memory engine and a YAML file under \<^verbatim>\<open>/tmp\<close>, both empty; the value limit of
  the engine is set to one mebibyte. \<open>inline_provider\<close> is a file provider
  constructed from inline JSON content, and \<open>null_data_provider\<close> and
  \<open>null_references_provider\<close> are the file providers that \<^verbatim>\<open>New\<close> builds from the
  inline YAML contents \<^verbatim>\<open>data: null\<close> and \<^verbatim>\<open>references: null\<close>. \<open>tagged_gob\<close> is a
  codec for string values: it puts a tag byte before the value, and its decoder fails on
  bytes that do not start with the tag, as gob's fails on bytes that are not a gob
  stream. \<open>constant_marshalers\<close> serializes every snapshot to the same bytes;
  \<open>writable_fs\<close> is an empty file system that accepts every write and \<open>refusing_fs\<close>
  one that refuses every write.
\<close>

definition test_file_provider :: "(string, string) provider" where
  "test_file_provider =
     \<lparr>cfg = \<lparr>Path = ''/tmp/test.yaml'', Content = []\<rparr>,
      data = \<lparr>DataMap = make_map Map.empty, References = make_map Map.empty\<rparr>,
      fileType = yml\<rparr>"

definition test_file_provider_uint64 :: "(64 word, string) provider" where
  "test_file_provider_uint64 =
     \<lparr>cfg = \<lparr>Path = ''/tmp/test.yaml'', Content = []\<rparr>,
      data = \<lparr>DataMap = make_map Map.empty, References = make_map Map.empty\<rparr>,
      fileType = yml\<rparr>"

definition inline_provider :: "(string, string) provider" where
  "inline_provider =
     \<lparr>cfg = \<lparr>Path = ''db.json'', Content = ''{}''\<rparr>,
      data = \<lparr>DataMap = make_map Map.empty, References = make_map Map.empty\<rparr>,
      fileType = jsn\<rparr>"

definition null_data_provider :: "(string, string) provider" where
  "null_data_provider =
     \<lparr>cfg = \<lparr>Path = ''db.yaml'', Content = ''data: null''\<rparr>,
      data = \<lparr>DataMap = nil_map, References = make_map Map.empty\<rparr>,
      fileType = yml\<rparr>"

definition null_references_provider :: "(string, string) provider" where
  "null_references_provider =
     \<lparr>cfg = \<lparr>Path = ''db.yaml'', Content = ''references: null''\<rparr>,
      data = \<lparr>DataMap = make_map Map.empty, References = nil_map\<rparr>,
      fileType = yml\<rparr>"

definition constant_marshalers :: "string \<Rightarrow> ('k, 'v) marshalers" where
  "constant_marshalers bytes =
     \<lparr>yaml_Marshal = (\<lambda>d. Inr bytes), json_MarshalIndent = (\<lambda>d. Inr bytes)\<rparr>"

definition writable_fs :: filesystem where
  "writable_fs = \<lparr>files = Map.empty, write_error = (\<lambda>name. None)\<rparr>"

definition refusing_fs :: filesystem where
  "refusing_fs =
     \<lparr>files = Map.empty, write_error = (\<lambda>name. Some (errorString ''permission denied''))\<rparr>"

definition tagged_gob :: "string gob" where
  "tagged_gob =
     \<lparr>gob_Encode = (\<lambda>v. Inr (CHR ''V'' # v)),
      gob_Decode = (\<lambda>bytes. case bytes of
                       [] \<Rightarrow> Inl (errorString ''EOF'')
                     | c # v \<Rightarrow> if c = CHR ''V'' then Inr v
                               else Inl (errorString ''unexpected EOF''))\<rparr>"

definition test_badger_provider :: "key_type \<Rightarrow> badger_provider" where
  "test_badger_provider kt =
     \<lparr>badger_cfg = \<lparr>DirectoryPath = None, InMemory = True\<rparr>, K = kt, db = Map.empty,
      value_limit = 1048576\<rparr>"

definition aliased_badger_provider :: badger_provider where
  "aliased_badger_provider =
     snd (badger_StoreReference
            (snd (badger_Store tagged_gob (test_badger_provider string_type)
                    (string_key ''key'') ''value''))
            (string_key ''alias'') (string_key ''key''))"

section \<open>Lemmas about the model\<close>

subsection \<open>Errors\<close>

lemma mapError_None: "mapError None = None"
  by (simp add: mapError_def Is_def)

lemma mapError_Some: "mapError (Some e) \<noteq> None"
  by (simp add: mapError_def Is_def NewNotFound_def Join_def List.map_filter_simps)

lemma mapError_ErrKeyNotFound:
  "mapError (Some ErrKeyNotFound) = Some (joinError [NotFound, ErrKeyNotFound])"
  by (simp add: mapError_def Is_def NewNotFound_def Join_def List.map_filter_simps)

lemma mapError_Some_other:
  "\<not> is_in_chain e ErrKeyNotFound \<Longrightarrow> mapError (Some e) = Some e"
  by (simp add: mapError_def Is_def)

lemma Is_wrapped_NotFound: "Is (Some (joinError [NotFound, ErrKeyNotFound])) NotFound"
  by (simp add: Is_def)

subsection \<open>The file backend\<close>

lemma assign_allocated: "m \<noteq> nil_map \<Longrightarrow> assign m k v = Some (make_map ((contents m)(k \<mapsto> v)))"
  by (cases m) simp_all

lemma contents_delete: "contents (delete m k) = (contents m)(k := None)"
  by (cases m) simp_all

lemma Store_nil: "DataMap (data p) = nil_map \<Longrightarrow> Store m p fs k v = Panic ''assignment to entry in nil map''"
  by (simp add: Store_def)

lemma StoreReference_nil:
  "References (data p) = nil_map \<Longrightarrow>
   StoreReference m p fs r k = Panic ''assignment to entry in nil map''"
  by (simp add: StoreReference_def)

lemma Store_eq:
  "DataMap (data p) \<noteq> nil_map \<Longrightarrow>
   Store m p fs k v =
     Return
       (fst (saveToFile m (p\<lparr>data := (data p)\<lparr>DataMap := make_map ((contents (DataMap (data p)))(k \<mapsto> v))\<rparr>\<rparr>) fs),
        p\<lparr>data := (data p)\<lparr>DataMap := make_map ((contents (DataMap (data p)))(k \<mapsto> v))\<rparr>\<rparr>,
        snd (saveToFile m (p\<lparr>data := (data p)\<lparr>DataMap := make_map ((contents (DataMap (data p)))(k \<mapsto> v))\<rparr>\<rparr>) fs))"
  by (simp add: Store_def Let_def assign_allocated split: prod.split)

lemma StoreReference_eq:
  "References (data p) \<noteq> nil_map \<Longrightarrow>
   StoreReference m p fs r k =
     Return
       (fst (saveToFile m (p\<lparr>data := (data p)\<lparr>References := make_map ((contents (References (data p)))(r \<mapsto> k))\<rparr>\<rparr>) fs),
        p\<lparr>data := (data p)\<lparr>References := make_map ((contents (References (data p)))(r \<mapsto> k))\<rparr>\<rparr>,
        snd (saveToFile m (p\<lparr>data := (data p)\<lparr>References := make_map ((contents (References (data p)))(r \<mapsto> k))\<rparr>\<rparr>) fs))"
  by (simp add: StoreReference_def Let_def assign_allocated split: prod.split)

lemma Remove_present_eq:
  "contents (DataMap (data p)) k = Some v \<Longrightarrow>
   Remove m p fs k =
     (fst (saveToFile m (p\<lparr>data := (data p)\<lparr>DataMap := delete (DataMap (data p)) k\<rparr>\<rparr>) fs),
      p\<lparr>data := (data p)\<lparr>DataMap := delete (DataMap (data p)) k\<rparr>\<rparr>,
      snd (saveToFile m (p\<lparr>data := (data p)\<lparr>DataMap := delete (DataMap (data p)) k\<rparr>\<rparr>) fs))"
  by (simp add: Remove_def Let_def split: prod.split)

lemma RemoveReference_present_eq:
  "contents (References (data p)) r = Some k \<Longrightarrow>
   RemoveReference m p fs r =
     (fst (saveToFile m (p\<lparr>data := (data p)\<lparr>References := delete (References (data p)) r\<rparr>\<rparr>) fs),
      p\<lparr>data := (data p)\<lparr>References := delete (References (data p)) r\<rparr>\<rparr>,
      snd (saveToFile m (p\<lparr>data := (data p)\<lparr>References := delete (References (data p)) r\<rparr>\<rparr>) fs))"
  by (simp add: RemoveReference_def Let_def split: prod.split)

lemma provider_of_Remove:
  "fst (snd (Remove m p fs key)) =
     (case contents (DataMap (data p)) key of
        None \<Rightarrow> p
      | Some _ \<Rightarrow> p\<lparr>data := (data p)\<lparr>DataMap := delete (DataMap (data p)) key\<rparr>\<rparr>)"
  by (simp add: Remove_def Let_def split: option.split prod.split)

lemma provider_of_RemoveReference:
  "fst (snd (RemoveReference m p fs r)) =
     (case contents (References (data p)) r of
        None \<Rightarrow> p
      | Some _ \<Rightarrow> p\<lparr>data := (data p)\<lparr>References := delete (References (data p)) r\<rparr>\<rparr>)"
  by (simp add: RemoveReference_def Let_def split: option.split prod.split)

lemma Remove_absent:
  "contents (DataMap (data p)) k = None \<Longrightarrow> Remove m p fs k = (Some NotFound, p, fs)"
  by (simp add: Remove_def)

lemma Remove_then_Get: "Get (fst (snd (Remove m p fs k))) k = Inl NotFound"
  by (simp add: provider_of_Remove Get_def contents_delete split: option.split)

lemma saveToFile_write_refused:
  assumes "write_error fs (Path (cfg p)) = Some e"
  shows "fst (saveToFile m p fs) \<noteq> None \<and> snd (saveToFile m p fs) = fs"
  using assms
  by (simp add: saveToFile_def os_WriteFile_def split: Type.split sum.split)

lemma saveToFile_refused_data:
  "write_error fs (Path (cfg p)) = Some e \<Longrightarrow>
   \<exists>y. fst (saveToFile m (p\<lparr>data := d\<rparr>) fs) = Some y"
  using saveToFile_write_refused [of fs "p\<lparr>data := d\<rparr>" e m] by auto

lemma saveToFile_written:
  assumes "write_error fs (Path (cfg p)) = None"
    and "fileType p = yml \<and> yaml_Marshal m (data p) = Inr bytes
         \<or> fileType p = jsn \<and> json_MarshalIndent m (data p) = Inr bytes"
  shows "saveToFile m p fs = (None, fs\<lparr>files := (files fs)(Path (cfg p) \<mapsto> bytes)\<rparr>)"
  using assms
  by (auto simp add: saveToFile_def os_WriteFile_def)

lemma saveToFile_Content:
  "saveToFile m (p\<lparr>cfg := (cfg p)\<lparr>Content := c\<rparr>\<rparr>) fs = saveToFile m p fs"
  by (cases "fileType p") (simp_all add: saveToFile_def split: sum.split)

lemma GetMultiple_loop_present:
  "\<forall>k\<in>set ks. contents (DataMap (data p)) k = Some (f k) \<Longrightarrow>
   GetMultiple_loop p ks acc = (acc @ map f ks, None)"
  by (induction ks arbitrary: acc) (simp_all add: Get_def)

lemma GetMultiple_loop_absent:
  "k \<in> set ks \<Longrightarrow> contents (DataMap (data p)) k = None \<Longrightarrow>
   GetMultiple_loop p ks acc = ([], Some NotFound)"
  by (induction ks arbitrary: acc) (auto simp add: Get_def split: option.split)

lemma record_calls_apply: "record_calls f k v calls = (f k v, calls @ [(k, v)])"
  by (simp add: record_calls_def)

lemma until_stop_Nil: "until_stop f [] = []"
  by (simp add: until_stop_def)

lemma until_stop_Cons:
  "until_stop f ((k, v) # es) = (if f k v then (k, v) # until_stop f es else [(k, v)])"
  by (simp add: until_stop_def)

lemma until_stop_always_continue: "until_stop always_continue entries = entries"
  by (induction entries) (auto simp add: until_stop_Nil until_stop_Cons always_continue_def)

lemma ForEach_loop_record_calls:
  "ForEach_loop (record_calls f) entries calls = calls @ until_stop f entries"
proof (induction entries arbitrary: calls)
  case Nil
  show ?case by (simp add: until_stop_Nil)
next
  case (Cons e es)
  obtain k v where e: "e = (k, v)" by (cases e)
  have step: "ForEach_loop (record_calls f) ((k, v) # es) calls =
      (if f k v then ForEach_loop (record_calls f) es (calls @ [(k, v)]) else calls @ [(k, v)])"
    by (simp add: record_calls_apply)
  show ?case
    unfolding e step Cons.IH until_stop_Cons by simp
qed

lemma range_order_set:
  assumes "range_order m entries"
  shows "set entries = Map.graph m" and "distinct entries"
proof -
  from assms have d: "distinct (map fst entries)" and m: "map_of entries = m"
    by (simp_all add: range_order_def)
  show "set entries = Map.graph m"
    using d m by (auto simp add: Map.graph_def dest: map_of_SomeD)
  show "distinct entries"
    using d by (simp add: distinct_map)
qed

subsection \<open>Keys\<close>

lemma readable_keyD:
  assumes "readable_key k"
  shows "keyToByte k = Inr (key_bytes k)" and "key_bytes k \<noteq> []"
  using assms by (auto simp add: readable_key_def key_bytes_def split: sum.splits)

lemma writable_keyD:
  assumes "writable_key k"
  shows "keyToByte k = Inr (key_bytes k)" and "accepted_key (key_bytes k)"
  using assms by (auto simp add: writable_key_def key_bytes_def split: sum.splits)

lemma writable_readable: "writable_key k \<Longrightarrow> readable_key k"
  by (auto simp add: writable_key_def readable_key_def accepted_key_def split: sum.splits)

lemma key_bytes_string: "key_bytes (string_key s) = s"
  by (simp add: key_bytes_def)


lemma writable_string_key: "writable_key (string_key s) = accepted_key s"
  by (simp add: writable_key_def)

lemma readable_string_key: "readable_key (string_key s) = (s \<noteq> [])"
  by (simp add: readable_key_def)


lemma is_digit_digit_char: "d < 10 \<Longrightarrow> is_digit (digit_char d)"
  by (simp add: is_digit_def digit_char_def)

lemma digit_value_digit_char: "d < 10 \<Longrightarrow> digit_value (digit_char d) = d"
  by (simp add: digit_value_def digit_char_def)

lemma ParseUint_loop_append:
  "ParseUint_loop (xs @ ys) n =
     (case ParseUint_loop xs n of Inl e \<Rightarrow> Inl e | Inr n' \<Rightarrow> ParseUint_loop ys n')"
  by (induction xs arbitrary: n) simp_all

lemma ParseUint_loop_decimal:
  "n \<le> maxUint64 \<Longrightarrow> ParseUint_loop (decimal n) 0 = Inr n"
proof (induction n rule: decimal.induct)
  case (1 n)
  show ?case
  proof (cases "n < 10")
    case True
    then show ?thesis
      by (simp add: decimal.simps [of n] is_digit_digit_char digit_value_digit_char maxUint64_def)
  next
    case False
    have small: "n div 10 \<le> maxUint64" using "1.prems" by simp
    have ih: "ParseUint_loop (decimal (n div 10)) 0 = Inr (n div 10)"
      using "1.IH" False small by simp
    have cut: "\<not> n div 10 \<ge> maxUint64 div 10 + 1"
      using "1.prems" by (simp add: maxUint64_def)
    have recompose: "n div 10 * 10 + n mod 10 = n" by simp
    show ?thesis
      using False ih cut "1.prems"
      by (simp add: decimal.simps [of n] ParseUint_loop_append
          is_digit_digit_char digit_value_digit_char recompose del: div_mult_mod_eq)
  qed
qed

lemma decimal_not_Nil: "decimal n \<noteq> []"
  by (simp add: decimal.simps [of n])

lemma ParseUint_FormatUint: "ParseUint (FormatUint n) = Inr n"
proof -
  have "unat n \<le> maxUint64"
    using unsigned_less [of n, where ?'a = nat] by (simp add: maxUint64_def)
  then show ?thesis
    by (simp add: ParseUint_def FormatUint_def decimal_not_Nil ParseUint_loop_decimal)
qed

lemma byteToKey_keyToByte:
  "has_type kt k \<Longrightarrow> keyToByte k = Inr kb \<Longrightarrow> byteToKey kt kb = Inr k"
  by (cases kt; cases k) (auto simp add: ParseUint_FormatUint)

text \<open>
  The decimal text of a uint64 key is never empty, starts with a digit and has at most
  twenty digits, so the engine accepts every uint64 key.
\<close>

lemma decimal_digits: "list_all is_digit (decimal n)"
proof (induction n rule: decimal.induct)
  case (1 n)
  show ?case
  proof (cases "n < 10")
    case True
    then show ?thesis by (simp add: decimal.simps [of n] is_digit_digit_char)
  next
    case False
    then show ?thesis
      using "1.IH" by (simp add: decimal.simps [of n] is_digit_digit_char)
  qed
qed

lemma length_decimal: "0 < k \<Longrightarrow> n < 10 ^ k \<Longrightarrow> length (decimal n) \<le> k"
proof (induction n arbitrary: k rule: decimal.induct)
  case (1 n)
  show ?case
  proof (cases "n < 10")
    case True
    then show ?thesis using "1.prems" by (simp add: decimal.simps [of n])
  next
    case False
    obtain j where k: "k = Suc j" using "1.prems"(1) by (cases k) auto
    have "0 < j"
    proof (rule ccontr)
      assume "\<not> 0 < j"
      then have "k = 1" using k by simp
      then show False using "1.prems"(2) False by simp
    qed
    moreover have "n div 10 < 10 ^ j"
      using "1.prems"(2) k by (simp add: less_mult_imp_div_less mult.commute)
    ultimately have "length (decimal (n div 10)) \<le> j"
      using "1.IH" False by simp
    then show ?thesis using False k by (simp add: decimal.simps [of n])
  qed
qed

lemma accepted_FormatUint: "accepted_key (FormatUint n)"
proof -
  have ne: "decimal (unat n) \<noteq> []" by (rule decimal_not_Nil)
  then obtain c cs where cs: "decimal (unat n) = c # cs" by (cases "decimal (unat n)") auto
  have "is_digit c" using decimal_digits [of "unat n"] cs by simp
  then have c: "c \<noteq> CHR ''!''" by (auto simp add: is_digit_def)
  have "unat n < 2 ^ 64" using unsigned_less [of n, where ?'a = nat] by simp
  also have "(2::nat) ^ 64 < 10 ^ 20" by simp
  finally have "length (decimal (unat n)) \<le> 20" by (intro length_decimal) simp_all
  then show ?thesis
    using cs c by (simp add: accepted_key_def FormatUint_def badgerPrefix_def maxKeySize_def)
qed

lemma writable_uint64_key: "writable_key (uint64_key n)"
  by (simp add: writable_key_def accepted_FormatUint)

subsection \<open>The engine backend\<close>

lemma txn_modify_accepted:
  "accepted_key k \<Longrightarrow> length v \<le> limit \<Longrightarrow> txn_modify limit k v = None"
  by (simp add: txn_modify_def accepted_key_def)

lemma badger_Store_eq:
  assumes "writable_key k" and "gob_Encode g v = Inr b" and "length b \<le> value_limit p"
  shows "badger_Store g p k v = (None, p\<lparr>db := (db p)(key_bytes k \<mapsto> b)\<rparr>)"
  using assms writable_keyD [OF assms(1)]
  by (simp add: badger_Store_def encodeToBytes_def db_Update_def txn_Set_def
      txn_modify_accepted mapError_None)

lemma badger_Store_encode_fails:
  "keyToByte k = Inr kb \<Longrightarrow> gob_Encode g v = Inl e \<Longrightarrow> badger_Store g p k v = (Some e, p)"
  by (simp add: badger_Store_def encodeToBytes_def)

lemma badger_StoreReference_eq:
  assumes "writable_key r" and "keyToByte k = Inr kb" and "length kb \<le> value_limit p"
  shows "badger_StoreReference p r k = (None, p\<lparr>db := (db p)(key_bytes r \<mapsto> kb)\<rparr>)"
  using assms writable_keyD [OF assms(1)]
  by (simp add: badger_StoreReference_def db_Update_def txn_Set_def txn_modify_accepted
      mapError_None)

lemma badger_Remove_eq:
  assumes "writable_key k"
  shows "badger_Remove p k = (None, p\<lparr>db := (db p)(key_bytes k := None)\<rparr>)"
  using writable_keyD [OF assms]
  by (simp add: badger_Remove_def db_Update_def txn_Delete_def txn_modify_accepted mapError_None)

lemma badger_RemoveReference_eq:
  assumes "writable_key k"
  shows "badger_RemoveReference p k = (None, p\<lparr>db := (db p)(key_bytes k := None)\<rparr>)"
  using writable_keyD [OF assms]
  by (simp add: badger_RemoveReference_def db_Update_def txn_Delete_def txn_modify_accepted
      mapError_None)

lemma badger_Get_absent:
  assumes "readable_key k" and "db p (key_bytes k) = None"
  shows "badger_Get g p k = Inl (joinError [NotFound, ErrKeyNotFound])"
  using assms(2) readable_keyD [OF assms(1)]
  by (simp add: badger_Get_def db_View_def txn_Get_def mapError_ErrKeyNotFound)

lemma badger_Get_item:
  assumes "readable_key k" and "db p (key_bytes k) = Some b"
  shows "badger_Get g p k =
           (case gob_Decode g b of Inl e \<Rightarrow> Inl (the (mapError (Some e))) | Inr v \<Rightarrow> Inr v)"
  using assms(2) readable_keyD [OF assms(1)]
  by (simp add: badger_Get_def db_View_def txn_Get_def decodeFromBytes_def split: sum.split)

lemma badger_Get_present:
  "readable_key k \<Longrightarrow> db p (key_bytes k) = Some b \<Longrightarrow> gob_Decode g b = Inr v \<Longrightarrow>
   badger_Get g p k = Inr v"
  by (simp add: badger_Get_item)

lemma holds_value_Get: "holds_value g p k v \<Longrightarrow> badger_Get g p k = Inr v"
  by (auto simp add: holds_value_def badger_Get_present split: option.splits)

lemma holds_nothing_Get:
  "holds_nothing p k \<Longrightarrow> badger_Get g p k = Inl (joinError [NotFound, ErrKeyNotFound])"
  by (simp add: holds_nothing_def badger_Get_absent)

text \<open>
  \<open>Remove\<close> in the engine backend returns nil for every key the engine accepts, present
  or not; \<open>Get\<close> reports the key as not found afterwards.
\<close>

lemma badger_Remove_returns_nil: "writable_key k \<Longrightarrow> fst (badger_Remove p k) = None"
  by (simp add: badger_Remove_eq)

lemma badger_RemoveReference_returns_nil:
  "writable_key r \<Longrightarrow> fst (badger_RemoveReference p r) = None"
  by (simp add: badger_RemoveReference_eq)

lemma badger_Remove_absent_unchanged:
  "writable_key k \<Longrightarrow> db p (key_bytes k) = None \<Longrightarrow> snd (badger_Remove p k) = p"
  by (simp add: badger_Remove_eq fun_upd_idem)

lemma badger_Remove_then_Get:
  "writable_key k \<Longrightarrow>
   badger_Get g (snd (badger_Remove p k)) k = Inl (joinError [NotFound, ErrKeyNotFound])"
  by (simp add: badger_Remove_eq badger_Get_absent writable_readable)



lemma badger_GetMultiple_loop_present:
  "\<forall>k\<in>set ks. holds_value g p k (f k) \<Longrightarrow>
   badger_GetMultiple_loop g p ks acc = (acc @ map f ks, None)"
proof (induction ks arbitrary: acc)
  case Nil
  show ?case by simp
next
  case (Cons k ks)
  have "badger_Get g p k = Inr (f k)"
    using Cons.prems by (simp add: holds_value_Get)
  moreover have "\<forall>k\<in>set ks. holds_value g p k (f k)"
    using Cons.prems by simp
  ultimately show ?case by (simp add: Cons.IH)
qed

lemma badger_GetMultiple_loop_first_failure:
  assumes "\<forall>k\<in>set pre. holds_value g p k (f k)" and "badger_Get g p k = Inl e"
  shows "badger_GetMultiple_loop g p (pre @ k # rest) acc = ([], Some e)"
  using assms(1)
proof (induction pre arbitrary: acc)
  case Nil
  show ?case using assms(2) by simp
next
  case (Cons x pre)
  have "badger_Get g p x = Inr (f x)"
    using Cons.prems by (simp add: holds_value_Get)
  moreover have "\<forall>k\<in>set pre. holds_value g p k (f k)"
    using Cons.prems by simp
  ultimately show ?case by (simp add: Cons.IH)
qed

lemma data_item_decode:
  assumes "data_item g kt (kb, b)"
  shows "byteToKey kt kb = Inr (fst (decode_item g kt (kb, b)))"
    and "decodeFromBytes g b = Inr (snd (decode_item g kt (kb, b)))"
  using assms by (auto simp add: data_item_def decode_item_def split: sum.splits)

lemma data_item_key_bytes:
  "data_item g kt item \<Longrightarrow> key_bytes (fst (decode_item g kt item)) = fst item"
  by (auto simp add: data_item_def decode_item_def key_bytes_def split: sum.splits)

lemma badger_ForEach_loop_record_calls:
  assumes "\<forall>item\<in>set items. data_item g kt item"
  shows "badger_ForEach_loop g kt (record_calls f) items calls =
           (None, calls @ until_stop f (map (decode_item g kt) items))"
  using assms
proof (induction items arbitrary: calls)
  case Nil
  show ?case by (simp add: until_stop_Nil)
next
  case (Cons item items)
  obtain kb b where item: "item = (kb, b)" by (cases item)
  obtain k v where kv: "decode_item g kt (kb, b) = (k, v)" by (cases "decode_item g kt (kb, b)")
  have di: "data_item g kt (kb, b)" using Cons.prems item by simp
  have k: "byteToKey kt kb = Inr k" and v: "decodeFromBytes g b = Inr v"
    using data_item_decode [OF di] kv by simp_all
  have rest: "\<forall>i\<in>set items. data_item g kt i" using Cons.prems by simp
  have step: "badger_ForEach_loop g kt (record_calls f) ((kb, b) # items) calls =
      (if f k v then badger_ForEach_loop g kt (record_calls f) items (calls @ [(k, v)])
       else (None, calls @ [(k, v)]))"
    by (simp add: k v record_calls_apply)
  show ?case
    unfolding item step Cons.IH [OF rest] list.map kv until_stop_Cons by simp
qed

lemma txn_Iterator_items:
  assumes "finite (dom txn)"
  shows "set (txn_Iterator txn) = Map.graph txn"
    and "distinct (map fst (txn_Iterator txn))"
    and "sorted (map fst (txn_Iterator txn))"
proof -
  have fstmap: "map fst (txn_Iterator txn) = sorted_list_of_set (dom txn)"
    by (simp add: txn_Iterator_def comp_def)
  show "distinct (map fst (txn_Iterator txn))" and "sorted (map fst (txn_Iterator txn))"
    by (simp_all add: fstmap)
  show "set (txn_Iterator txn) = Map.graph txn"
    using assms by (auto simp add: txn_Iterator_def Map.graph_def)
qed

lemma decoded_keys_distinct:
  assumes "\<forall>item\<in>set items. data_item g kt item" and "distinct (map fst items)"
  shows "distinct (map fst (map (decode_item g kt) items))"
proof -
  have eq: "map (key_bytes \<circ> (fst \<circ> decode_item g kt)) items = map fst items"
    using assms(1) by (simp add: data_item_key_bytes)
  have "distinct (map (key_bytes \<circ> (fst \<circ> decode_item g kt)) items)"
    unfolding eq by (rule assms(2))
  then have "distinct items \<and> inj_on (key_bytes \<circ> (fst \<circ> decode_item g kt)) (set items)"
    by (simp only: distinct_map)
  then have "distinct items \<and> inj_on (fst \<circ> decode_item g kt) (set items)"
    by (blast intro: inj_on_imageI2)
  then show ?thesis
    by (simp add: distinct_map)
qed

text \<open>
  A keyspace that holds only data items: the empty one does, and \<open>Store\<close> (of a writable
  key of the provider's key type and a value the codec encodes, within the engine's
  limit, to bytes it decodes) and \<open>Remove\<close> keep it so. \<open>StoreReference\<close> is the
  operation that does not.
\<close>

lemma only_data_items_empty: "db p = Map.empty \<Longrightarrow> only_data_items g p"
  by (simp add: only_data_items_def)

lemma data_item_stored:
  assumes "has_type kt k" and "keyToByte k = Inr kb" and "gob_Decode g b = Inr v"
  shows "data_item g kt (kb, b)"
  using assms byteToKey_keyToByte [OF assms(1,2)]
  by (simp add: data_item_def decodeFromBytes_def)

lemma only_data_items_Store:
  assumes "only_data_items g p" and "has_type (K p) k" and "writable_key k"
    and "gob_Encode g v = Inr b" and "length b \<le> value_limit p" and "gob_Decode g b = Inr v'"
  shows "only_data_items g (snd (badger_Store g p k v))"
proof -
  have st: "snd (badger_Store g p k v) = p\<lparr>db := (db p)(key_bytes k \<mapsto> b)\<rparr>"
    using assms(3,4,5) by (simp add: badger_Store_eq)
  have new: "data_item g (K p) (key_bytes k, b)"
    using assms(2) writable_keyD(1) [OF assms(3)] assms(6) by (rule data_item_stored)
  show ?thesis
    unfolding st using assms(1) new
    by (auto simp add: only_data_items_def Map.graph_def split: if_splits)
qed

lemma only_data_items_Remove:
  assumes "only_data_items g p"
  shows "only_data_items g (snd (badger_Remove p k))"
proof -
  have "snd (badger_Remove p k) = p \<or> (\<exists>kb. snd (badger_Remove p k) = p\<lparr>db := (db p)(kb := None)\<rparr>)"
    by (auto simp add: badger_Remove_def db_Update_def txn_Delete_def
        split: sum.split option.split prod.split)
  then show ?thesis
    using assms
    by (auto simp add: only_data_items_def Map.graph_def split: if_splits)
qed

lemma only_data_items_Iterator:
  assumes "only_data_items g p"
  shows "\<forall>item\<in>set (txn_Iterator (db p)). data_item g (K p) item"
  using assms txn_Iterator_items(1) [of "db p"] by (simp add: only_data_items_def)

subsection \<open>The concrete instances\<close>

lemma accepted_short_keys:
  "accepted_key ''key''" "accepted_key ''alias''" "accepted_key ''key1''" "accepted_key ''key2''"
  "accepted_key ''target''"
  by (simp_all add: accepted_key_def badgerPrefix_def maxKeySize_def)

lemma tagged_gob_value:
  "gob_Encode tagged_gob v = Inr (CHR ''V'' # v)" "gob_Decode tagged_gob (CHR ''V'' # v) = Inr v"
  by (simp_all add: tagged_gob_def)

lemma test_badger_provider_fields:
  "db (test_badger_provider kt) = Map.empty" "K (test_badger_provider kt) = kt"
  "value_limit (test_badger_provider kt) = 1048576"
  by (simp_all add: test_badger_provider_def)

lemma stored_key_value:
  "badger_Store tagged_gob (test_badger_provider string_type) (string_key ''key'') ''value''
     = (None, (test_badger_provider string_type)\<lparr>db := [''key'' \<mapsto> ''Vvalue'']\<rparr>)"
  using badger_Store_eq [of "string_key ''key''" tagged_gob "''value''" "''Vvalue''"
      "test_badger_provider string_type"]
  by (simp add: writable_string_key accepted_short_keys tagged_gob_value
      test_badger_provider_fields key_bytes_string)

lemma aliased_badger_provider_eq:
  "aliased_badger_provider
     = (test_badger_provider string_type)\<lparr>db := [''key'' \<mapsto> ''Vvalue'', ''alias'' \<mapsto> ''key'']\<rparr>"
  and aliased_returns_nil: "fst (badger_StoreReference
              (snd (badger_Store tagged_gob (test_badger_provider string_type)
                      (string_key ''key'') ''value''))
              (string_key ''alias'') (string_key ''key'')) = None"
  using badger_StoreReference_eq [of "string_key ''alias''" "string_key ''key''" "''key''"
      "(test_badger_provider string_type)\<lparr>db := [''key'' \<mapsto> ''Vvalue'']\<rparr>"]
  by (simp_all add: aliased_badger_provider_def stored_key_value writable_string_key
      accepted_short_keys test_badger_provider_fields key_bytes_string)

lemma db_aliased: "db aliased_badger_provider = [''key'' \<mapsto> ''Vvalue'', ''alias'' \<mapsto> ''key'']"
  and K_aliased: "K aliased_badger_provider = string_type"
  by (simp_all add: aliased_badger_provider_eq test_badger_provider_fields)

lemma iter_aliased:
  "txn_Iterator (db aliased_badger_provider) = [(''alias'', ''key''), (''key'', ''Vvalue'')]"
proof -
  have "dom (db aliased_badger_provider) = {''alias'', ''key''}"
    by (auto simp add: db_aliased)
  moreover have "sorted_list_of_set {''alias'', ''key''} = [''alias'', ''key'']"
    by code_simp
  ultimately show ?thesis
    by (simp add: txn_Iterator_def db_aliased)
qed

text \<open>
  What the engine backend does with a key that is not writable or not readable: the write
  operations return an error and leave the provider as it was, and \<open>Get\<close> returns an
  error that is not the NotFound condition.
\<close>

lemma badger_Store_not_writable:
  assumes "\<not> writable_key k"
  shows "fst (badger_Store g p k v) \<noteq> None" and "snd (badger_Store g p k v) = p"
  using assms
  by (auto simp add: badger_Store_def writable_key_def accepted_key_def txn_Set_def
      txn_modify_def db_Update_def mapError_def Is_def NewNotFound_def
      split: sum.splits option.splits if_splits)

lemma badger_StoreReference_not_writable:
  assumes "\<not> writable_key r"
  shows "fst (badger_StoreReference p r k) \<noteq> None" and "snd (badger_StoreReference p r k) = p"
  using assms
  by (auto simp add: badger_StoreReference_def writable_key_def accepted_key_def txn_Set_def
      txn_modify_def db_Update_def mapError_def Is_def NewNotFound_def
      split: sum.splits option.splits if_splits)

lemma badger_Get_not_readable:
  assumes "\<not> readable_key k"
  shows "badger_Get g p k = Inl ErrEmptyKey
         \<or> badger_Get g p k = Inl (errorString ''unknown key type (string, uint64 supported)'')"
proof (cases "keyToByte k")
  case (Inl e)
  then have "e = errorString ''unknown key type (string, uint64 supported)''"
    by (cases k) simp_all
  then show ?thesis
    using Inl by (simp add: badger_Get_def)
next
  case (Inr kb)
  then have "kb = []"
    using assms by (simp add: readable_key_def)
  then show ?thesis
    using Inr by (simp add: badger_Get_def db_View_def txn_Get_def mapError_Some_other)
qed








text \<open>
  On a provider whose maps are allocated, each mutating operation of the file backend
  changes the in-memory maps first and flushes the changed provider afterwards: when the
  operating system refuses the write, the operation returns an error and the provider
  it returns has the mutation all the same.
\<close>

lemma mutation_survives_failed_flush:
  assumes "write_error fs (Path (cfg p)) = Some e"
  shows "DataMap (data p) \<noteq> nil_map \<Longrightarrow>
           fst (returned (Store m p fs k v)) \<noteq> None
           \<and> Get (fst (snd (returned (Store m p fs k v)))) k = Inr v"
    and "References (data p) \<noteq> nil_map \<Longrightarrow>
           fst (returned (StoreReference m p fs r k)) \<noteq> None
           \<and> contents (References (data (fst (snd (returned (StoreReference m p fs r k)))))) r
               = Some k"
    and "contents (DataMap (data p)) k \<noteq> None \<Longrightarrow>
           fst (Remove m p fs k) \<noteq> None \<and> Get (fst (snd (Remove m p fs k))) k = Inl NotFound"
    and "contents (References (data p)) r \<noteq> None \<Longrightarrow>
           fst (RemoveReference m p fs r) \<noteq> None
           \<and> GetByReference (fst (snd (RemoveReference m p fs r))) r = Inl NotFound"
proof -
  note refused = saveToFile_refused_data [OF assms]
  show "DataMap (data p) \<noteq> nil_map \<Longrightarrow>
           fst (returned (Store m p fs k v)) \<noteq> None
           \<and> Get (fst (snd (returned (Store m p fs k v)))) k = Inr v"
    by (simp add: Store_eq Get_def refused)
  show "References (data p) \<noteq> nil_map \<Longrightarrow>
           fst (returned (StoreReference m p fs r k)) \<noteq> None
           \<and> contents (References (data (fst (snd (returned (StoreReference m p fs r k)))))) r
               = Some k"
    by (simp add: StoreReference_eq refused)
  show "contents (DataMap (data p)) k \<noteq> None \<Longrightarrow>
           fst (Remove m p fs k) \<noteq> None \<and> Get (fst (snd (Remove m p fs k))) k = Inl NotFound"
    by (auto simp add: Remove_present_eq Get_def contents_delete refused)
  show "contents (References (data p)) r \<noteq> None \<Longrightarrow>
           fst (RemoveReference m p fs r) \<noteq> None
           \<and> GetByReference (fst (snd (RemoveReference m p fs r))) r = Inl NotFound"
    by (auto simp add: RemoveReference_present_eq GetByReference_def contents_delete refused)
qed

section \<open>The claims\<close>

text \<open>
  C1 (evaluation at the failing input). The claim is that \<open>Remove\<close> of an absent key
  returns NotFound in both backends. The engine backend has no presence check: on the
  empty in-memory engine of the test suite, \<open>Remove\<close> of the key \<open>key\<close> returns nil and
  leaves the provider as it was, where the file backend returns \<open>NotFound\<close>.
\<close>

theorem C1_badger_Remove_absent_key:
  "badger_Remove (test_badger_provider string_type) (string_key ''key'')
     = (None, test_badger_provider string_type)
   \<and> Remove (constant_marshalers ''{}'') test_file_provider writable_fs ''key''
     = (Some NotFound, test_file_provider, writable_fs)"
  by (simp add: badger_Remove_eq writable_string_key accepted_short_keys
      test_badger_provider_def key_bytes_string Remove_def test_file_provider_def)

text \<open>
  C2 (counterexample). A file provider constructed from the inline content \<open>{}\<close>, with
  the path \<open>db.json\<close>: \<open>Store\<close> returns and writes the serialized snapshot to
  \<open>db.json\<close>, a file that did not exist before.
\<close>

theorem C2_inline_content_counterexample:
  "Content (cfg inline_provider) \<noteq> []
   \<and> files writable_fs ''db.json'' = None
   \<and> is_Return (Store (constant_marshalers ''{...}'') inline_provider writable_fs
                  ''key'' ''value'')
   \<and> files (snd (snd (returned (Store (constant_marshalers ''{...}'') inline_provider writable_fs
                                   ''key'' ''value'')))) ''db.json'' = Some ''{...}''"
  by (simp add: Store_eq inline_provider_def writable_fs_def constant_marshalers_def
      saveToFile_def os_WriteFile_def)

text \<open>
  C2 (amended). The flush does not consult the inline content: for a provider constructed
  with non-empty inline content, as for any other, \<open>saveToFile\<close> gives the same result
  whatever the content is, and when the serializer of the provider's format succeeds
  (with bytes \<open>ser d\<close> for the snapshot \<open>d\<close>) and the operating system accepts the write,
  each of \<open>Store\<close> (on an allocated entries map), \<open>StoreReference\<close> (on an allocated
  references map), \<open>Shutdown\<close>, \<open>Remove\<close> of a present key and \<open>RemoveReference\<close> of a
  present alias returns nil and overwrites the file named by the path with the serialized
  snapshot after the mutation. Only \<open>Remove\<close> of an absent key and \<open>RemoveReference\<close> of
  an absent alias leave the file system as it was.
\<close>

theorem C2_flush_ignores_inline_content:
  assumes "Content (cfg p) \<noteq> []"
    and "write_error fs (Path (cfg p)) = None"
    and "fileType p = yml \<and> yaml_Marshal m = (\<lambda>d. Inr (ser d))
         \<or> fileType p = jsn \<and> json_MarshalIndent m = (\<lambda>d. Inr (ser d))"
  shows
    "saveToFile m (p\<lparr>cfg := (cfg p)\<lparr>Content := c\<rparr>\<rparr>) fs = saveToFile m p fs
     \<and> (DataMap (data p) \<noteq> nil_map \<longrightarrow>
          (case Store m p fs k v of
             Return (err, p', fs') \<Rightarrow>
               err = None \<and> fs' = fs\<lparr>files := (files fs)(Path (cfg p) \<mapsto> ser (data p'))\<rparr>
           | Panic msg \<Rightarrow> False))
     \<and> (References (data p) \<noteq> nil_map \<longrightarrow>
          (case StoreReference m p fs r k of
             Return (err, p', fs') \<Rightarrow>
               err = None \<and> fs' = fs\<lparr>files := (files fs)(Path (cfg p) \<mapsto> ser (data p'))\<rparr>
           | Panic msg \<Rightarrow> False))
     \<and> (case Shutdown m p fs of (err, p', fs') \<Rightarrow>
          err = None \<and> p' = p \<and> fs' = fs\<lparr>files := (files fs)(Path (cfg p) \<mapsto> ser (data p))\<rparr>)
     \<and> (contents (DataMap (data p)) k \<noteq> None \<longrightarrow>
          (case Remove m p fs k of (err, p', fs') \<Rightarrow>
             err = None \<and> fs' = fs\<lparr>files := (files fs)(Path (cfg p) \<mapsto> ser (data p'))\<rparr>))
     \<and> (contents (References (data p)) r \<noteq> None \<longrightarrow>
          (case RemoveReference m p fs r of (err, p', fs') \<Rightarrow>
             err = None \<and> fs' = fs\<lparr>files := (files fs)(Path (cfg p) \<mapsto> ser (data p'))\<rparr>))
     \<and> (contents (DataMap (data p)) k = None \<longrightarrow> snd (snd (Remove m p fs k)) = fs)
     \<and> (contents (References (data p)) r = None \<longrightarrow> snd (snd (RemoveReference m p fs r)) = fs)"
proof -
  have flush: "saveToFile m (p\<lparr>data := d\<rparr>) fs
                 = (None, fs\<lparr>files := (files fs)(Path (cfg p) \<mapsto> ser d)\<rparr>)" for d
    using assms(2,3) saveToFile_written [of fs "p\<lparr>data := d\<rparr>" m "ser d"] by auto
  have flush0: "saveToFile m p fs
                 = (None, fs\<lparr>files := (files fs)(Path (cfg p) \<mapsto> ser (data p))\<rparr>)"
    using flush [of "data p"] by simp
  have a: "saveToFile m (p\<lparr>cfg := (cfg p)\<lparr>Content := c\<rparr>\<rparr>) fs = saveToFile m p fs"
    by (rule saveToFile_Content)
  have b: "DataMap (data p) \<noteq> nil_map \<longrightarrow>
          (case Store m p fs k v of
             Return (err, p', fs') \<Rightarrow>
               err = None \<and> fs' = fs\<lparr>files := (files fs)(Path (cfg p) \<mapsto> ser (data p'))\<rparr>
           | Panic msg \<Rightarrow> False)"
    by (simp add: Store_eq flush)
  have c: "References (data p) \<noteq> nil_map \<longrightarrow>
          (case StoreReference m p fs r k of
             Return (err, p', fs') \<Rightarrow>
               err = None \<and> fs' = fs\<lparr>files := (files fs)(Path (cfg p) \<mapsto> ser (data p'))\<rparr>
           | Panic msg \<Rightarrow> False)"
    by (simp add: StoreReference_eq flush)
  have d: "case Shutdown m p fs of (err, p', fs') \<Rightarrow>
          err = None \<and> p' = p \<and> fs' = fs\<lparr>files := (files fs)(Path (cfg p) \<mapsto> ser (data p))\<rparr>"
    by (simp add: Shutdown_def flush0)
  have e: "contents (DataMap (data p)) k \<noteq> None \<longrightarrow>
          (case Remove m p fs k of (err, p', fs') \<Rightarrow>
             err = None \<and> fs' = fs\<lparr>files := (files fs)(Path (cfg p) \<mapsto> ser (data p'))\<rparr>)"
    by (auto simp add: Remove_present_eq flush)
  have f: "contents (References (data p)) r \<noteq> None \<longrightarrow>
          (case RemoveReference m p fs r of (err, p', fs') \<Rightarrow>
             err = None \<and> fs' = fs\<lparr>files := (files fs)(Path (cfg p) \<mapsto> ser (data p'))\<rparr>)"
    by (auto simp add: RemoveReference_present_eq flush)
  have g: "contents (DataMap (data p)) k = None \<longrightarrow> snd (snd (Remove m p fs k)) = fs"
    by (simp add: Remove_def)
  have h: "contents (References (data p)) r = None \<longrightarrow> snd (snd (RemoveReference m p fs r)) = fs"
    by (simp add: RemoveReference_def)
  from a b c d e f g h show ?thesis by blast
qed

theorem C2_flush_ignores_inline_content_witness:
  "Content (cfg inline_provider) \<noteq> []
   \<and> write_error writable_fs (Path (cfg inline_provider)) = None
   \<and> fileType inline_provider = jsn
   \<and> DataMap (data inline_provider) \<noteq> nil_map
   \<and> References (data inline_provider) \<noteq> nil_map
   \<and> is_Return (Store (constant_marshalers ''{...}'') inline_provider writable_fs
                  ''key'' ''value'')
   \<and> files (snd (snd (returned (Store (constant_marshalers ''{...}'') inline_provider writable_fs
                                   ''key'' ''value'')))) ''db.json'' = Some ''{...}''
   \<and> is_Return (StoreReference (constant_marshalers ''{...}'') inline_provider writable_fs
                  ''ref'' ''key'')
   \<and> files (snd (snd (returned (StoreReference (constant_marshalers ''{...}'') inline_provider
                                   writable_fs ''ref'' ''key'')))) ''db.json'' = Some ''{...}''
   \<and> files (snd (snd (Shutdown (constant_marshalers ''{...}'') inline_provider writable_fs)))
        ''db.json'' = Some ''{...}''
   \<and> snd (snd (Remove (constant_marshalers ''{...}'') inline_provider writable_fs ''key''))
       = writable_fs"
proof -
  have c: "Content (cfg inline_provider) \<noteq> []"
    by (simp add: inline_provider_def)
  have w: "write_error writable_fs (Path (cfg inline_provider)) = None"
    by (simp add: writable_fs_def)
  have m: "fileType inline_provider = yml
             \<and> yaml_Marshal (constant_marshalers ''{...}'' :: (string, string) marshalers)
                 = (\<lambda>d. Inr ((\<lambda>d. ''{...}'') d))
           \<or> fileType inline_provider = jsn
             \<and> json_MarshalIndent (constant_marshalers ''{...}'' :: (string, string) marshalers)
                 = (\<lambda>d. Inr ((\<lambda>d. ''{...}'') d))"
    by (simp add: inline_provider_def constant_marshalers_def)
  have p: "Path (cfg inline_provider) = ''db.json''"
    "contents (DataMap (data inline_provider)) ''key'' = None"
    "fileType inline_provider = jsn"
    "DataMap (data inline_provider) \<noteq> nil_map"
    "References (data inline_provider) \<noteq> nil_map"
    by (simp_all add: inline_provider_def)
  show ?thesis
    using c w p
      C2_flush_ignores_inline_content [OF c w m, where k = "''key''" and v = "''value''"
        and r = "''ref''" and c = "''{}''"]
    by (auto simp add: case_prod_unfold split: result.splits)
qed

text \<open>
  C3 (counterexample). In the engine backend the sequence does not always make the
  reference overwrite the entry undetected. On the empty in-memory engine over string
  keys, \<open>Store\<close> of the empty key returns the engine's error \<open>ErrEmptyKey\<close> and so does
  \<open>StoreReference\<close> under it: nothing is stored and nothing is overwritten. Over a named
  string type both calls return the error of the \<^verbatim>\<open>default\<close> branch of \<^verbatim>\<open>keyToByte\<close>.
\<close>

theorem C3_counterexample:
  "badger_Store tagged_gob (test_badger_provider string_type) (string_key []) ''value''
     = (Some ErrEmptyKey, test_badger_provider string_type)
   \<and> badger_StoreReference
        (snd (badger_Store tagged_gob (test_badger_provider string_type) (string_key [])
                ''value''))
        (string_key []) (string_key ''target'')
     = (Some ErrEmptyKey, test_badger_provider string_type)
   \<and> db (test_badger_provider string_type) [] = None
   \<and> badger_Store tagged_gob (test_badger_provider named_string_type) (named_string_key ''key'')
        ''value''
     = (Some (errorString ''unknown key type (string, uint64 supported)''),
        test_badger_provider named_string_type)
   \<and> badger_StoreReference
        (snd (badger_Store tagged_gob (test_badger_provider named_string_type)
                (named_string_key ''key'') ''value''))
        (named_string_key ''key'') (named_string_key ''target'')
     = (Some (errorString ''unknown key type (string, uint64 supported)''),
        test_badger_provider named_string_type)"
  by (simp add: badger_Store_def badger_StoreReference_def encodeToBytes_def tagged_gob_def
      db_Update_def txn_Set_def txn_modify_def mapError_Some_other test_badger_provider_def)

text \<open>
  C3 (amended). In the snapshot file backend, on a provider whose two maps are allocated,
  storing a reference under the raw key of a data entry leaves the entry readable: both
  calls return, and after \<open>Store k v\<close> and \<open>StoreReference k t\<close>, \<open>Get k\<close> returns
  \<open>v\<close>, whatever the two flushes return. In the engine backend, for a key \<open>bk\<close> that is
  writable (of a built-in key type, with bytes the engine accepts), a target of a built-in
  key type and a value the codec encodes, both within the engine's value limit, the same
  sequence succeeds twice, and the second write replaces the bytes of the entry at the
  engine key of \<open>bk\<close> with the bytes of the target key, with no error: \<open>Get bk\<close> then
  decodes the bytes of the target key instead of returning the value. For a key that is
  not writable both calls return an error and leave the keyspace as it was.
\<close>

theorem C3_reference_on_a_data_key:
  "(DataMap (data p) \<noteq> nil_map \<and> References (data p) \<noteq> nil_map \<longrightarrow>
      (case Store m p fs k v of
         Return (e1, p1, fs1) \<Rightarrow>
           (case StoreReference m p1 fs1 k t of
              Return (e2, p2, fs2) \<Rightarrow> Get p2 k = Inr v
            | Panic msg \<Rightarrow> False)
       | Panic msg \<Rightarrow> False))
   \<and> (writable_key bk \<and> keyToByte bt = Inr tb \<and> gob_Encode g bv = Inr b
       \<and> length b \<le> value_limit bp \<and> length tb \<le> value_limit bp \<longrightarrow>
        (case badger_Store g bp bk bv of (e1, bp1) \<Rightarrow>
           case badger_StoreReference bp1 bk bt of (e2, bp2) \<Rightarrow>
             e1 = None \<and> db bp1 (key_bytes bk) = Some b
             \<and> e2 = None \<and> db bp2 (key_bytes bk) = Some tb
             \<and> badger_Get g bp2 bk =
                 (case gob_Decode g tb of
                    Inl err \<Rightarrow> Inl (the (mapError (Some err)))
                  | Inr val \<Rightarrow> Inr val)))
   \<and> (\<not> writable_key bk \<longrightarrow>
        (case badger_Store g bp bk bv of (e1, bp1) \<Rightarrow>
           case badger_StoreReference bp1 bk bt of (e2, bp2) \<Rightarrow>
             e1 \<noteq> None \<and> e2 \<noteq> None \<and> bp2 = bp))"
proof -
  have filepart: "DataMap (data p) \<noteq> nil_map \<and> References (data p) \<noteq> nil_map \<longrightarrow>
      (case Store m p fs k v of
         Return (e1, p1, fs1) \<Rightarrow>
           (case StoreReference m p1 fs1 k t of
              Return (e2, p2, fs2) \<Rightarrow> Get p2 k = Inr v
            | Panic msg \<Rightarrow> False)
       | Panic msg \<Rightarrow> False)"
    by (simp add: Store_eq StoreReference_eq Get_def)
  have engine: "writable_key bk \<and> keyToByte bt = Inr tb \<and> gob_Encode g bv = Inr b
       \<and> length b \<le> value_limit bp \<and> length tb \<le> value_limit bp \<longrightarrow>
        (case badger_Store g bp bk bv of (e1, bp1) \<Rightarrow>
           case badger_StoreReference bp1 bk bt of (e2, bp2) \<Rightarrow>
             e1 = None \<and> db bp1 (key_bytes bk) = Some b
             \<and> e2 = None \<and> db bp2 (key_bytes bk) = Some tb
             \<and> badger_Get g bp2 bk =
                 (case gob_Decode g tb of
                    Inl err \<Rightarrow> Inl (the (mapError (Some err)))
                  | Inr val \<Rightarrow> Inr val))"
  proof
    assume h: "writable_key bk \<and> keyToByte bt = Inr tb \<and> gob_Encode g bv = Inr b
       \<and> length b \<le> value_limit bp \<and> length tb \<le> value_limit bp"
    let ?bp1 = "bp\<lparr>db := (db bp)(key_bytes bk \<mapsto> b)\<rparr>"
    let ?bp2 = "?bp1\<lparr>db := (db ?bp1)(key_bytes bk \<mapsto> tb)\<rparr>"
    have s1: "badger_Store g bp bk bv = (None, ?bp1)"
      using h by (simp add: badger_Store_eq)
    have s2: "badger_StoreReference ?bp1 bk bt = (None, ?bp2)"
      using h by (simp add: badger_StoreReference_eq)
    have g2: "badger_Get g ?bp2 bk =
                (case gob_Decode g tb of
                   Inl err \<Rightarrow> Inl (the (mapError (Some err)))
                 | Inr val \<Rightarrow> Inr val)"
      using h by (simp add: badger_Get_item writable_readable)
    show "case badger_Store g bp bk bv of (e1, bp1) \<Rightarrow>
           case badger_StoreReference bp1 bk bt of (e2, bp2) \<Rightarrow>
             e1 = None \<and> db bp1 (key_bytes bk) = Some b
             \<and> e2 = None \<and> db bp2 (key_bytes bk) = Some tb
             \<and> badger_Get g bp2 bk =
                 (case gob_Decode g tb of
                    Inl err \<Rightarrow> Inl (the (mapError (Some err)))
                  | Inr val \<Rightarrow> Inr val)"
      unfolding s1 s2 prod.case using g2 by simp
  qed
  have refused: "\<not> writable_key bk \<longrightarrow>
        (case badger_Store g bp bk bv of (e1, bp1) \<Rightarrow>
           case badger_StoreReference bp1 bk bt of (e2, bp2) \<Rightarrow>
             e1 \<noteq> None \<and> e2 \<noteq> None \<and> bp2 = bp)"
    using badger_Store_not_writable [of bk g bp bv]
      badger_StoreReference_not_writable [of bk bp bt]
    by (simp add: case_prod_unfold)
  from filepart engine refused show ?thesis by blast
qed

theorem C3_reference_on_a_data_key_witness:
  "DataMap (data test_file_provider) \<noteq> nil_map \<and> References (data test_file_provider) \<noteq> nil_map
   \<and> is_Return (Store (constant_marshalers ''{}'') test_file_provider writable_fs
                  ''key'' ''value'')
   \<and> is_Return (StoreReference (constant_marshalers ''{}'')
                  (fst (snd (returned (Store (constant_marshalers ''{}'') test_file_provider
                                         writable_fs ''key'' ''value''))))
                  (snd (snd (returned (Store (constant_marshalers ''{}'') test_file_provider
                                         writable_fs ''key'' ''value''))))
                  ''key'' ''target'')
   \<and> Get (fst (snd (returned (StoreReference (constant_marshalers ''{}'')
                     (fst (snd (returned (Store (constant_marshalers ''{}'') test_file_provider
                                            writable_fs ''key'' ''value''))))
                     (snd (snd (returned (Store (constant_marshalers ''{}'') test_file_provider
                                            writable_fs ''key'' ''value''))))
                     ''key'' ''target'')))) ''key'' = Inr ''value''
   \<and> writable_key (string_key ''key'')
   \<and> gob_Encode tagged_gob ''value'' = Inr ''Vvalue''
   \<and> db (snd (badger_Store tagged_gob (test_badger_provider string_type) (string_key ''key'')
               ''value'')) ''key'' = Some ''Vvalue''
   \<and> db (snd (badger_StoreReference
               (snd (badger_Store tagged_gob (test_badger_provider string_type)
                       (string_key ''key'') ''value''))
               (string_key ''key'') (string_key ''target''))) ''key'' = Some ''target''
   \<and> badger_Get tagged_gob
        (snd (badger_StoreReference
               (snd (badger_Store tagged_gob (test_badger_provider string_type)
                       (string_key ''key'') ''value''))
               (string_key ''key'') (string_key ''target'')))
        (string_key ''key'') = Inl (errorString ''unexpected EOF'')
   \<and> \<not> writable_key (string_key [])
   \<and> snd (badger_StoreReference
            (snd (badger_Store tagged_gob (test_badger_provider string_type) (string_key [])
                    ''value''))
            (string_key []) (string_key ''target'')) = test_badger_provider string_type"
proof -
  have a: "DataMap (data test_file_provider) \<noteq> nil_map"
    "References (data test_file_provider) \<noteq> nil_map"
    by (simp_all add: test_file_provider_def)
  have w: "writable_key (string_key ''key'')"
    by (simp add: writable_string_key accepted_short_keys)
  have t: "keyToByte (string_key ''target'') = Inr ''target''"
    by simp
  have e: "gob_Encode tagged_gob ''value'' = Inr ''Vvalue''"
    by (simp add: tagged_gob_def)
  have d: "gob_Decode tagged_gob ''target'' = Inl (errorString ''unexpected EOF'')"
    by (simp add: tagged_gob_def)
  have l: "length ''Vvalue'' \<le> value_limit (test_badger_provider string_type)"
    "length ''target'' \<le> value_limit (test_badger_provider string_type)"
    by (simp_all add: test_badger_provider_fields)
  have n: "\<not> writable_key (string_key [])"
    by (simp add: writable_string_key accepted_key_def)
  show ?thesis
    using a w t e l n
      C3_reference_on_a_data_key [where m = "constant_marshalers ''{}''"
        and p = test_file_provider and fs = writable_fs and k = "''key''" and v = "''value''"
        and t = "''target''" and g = tagged_gob and bv = "''value''" and b = "''Vvalue''"
        and bp = "test_badger_provider string_type" and bk = "string_key ''key''"
        and bt = "string_key ''target''" and tb = "''target''"]
      C3_reference_on_a_data_key [where m = "constant_marshalers ''{}''"
        and p = test_file_provider and fs = writable_fs and k = "''key''" and v = "''value''"
        and t = "''target''" and g = tagged_gob and bv = "''value''" and b = "''Vvalue''"
        and bp = "test_badger_provider string_type" and bk = "string_key []"
        and bt = "string_key ''target''" and tb = "''target''"]
    by (auto simp add: case_prod_unfold key_bytes_string d mapError_Some_other
        split: result.splits)
qed

text \<open>
  C4 (counterexample). In the engine backend \<open>Store\<close> followed by \<open>Get\<close> does not
  return the value for every key of every supported key domain. Over string keys,
  \<open>Store\<close> of the empty key returns the engine's error \<open>ErrEmptyKey\<close> and \<open>Get\<close> of it
  returns the same error. Over a named string type, which the constraint of \<^verbatim>\<open>New\<close>
  admits, \<open>Store\<close> and \<open>Get\<close> return the error of the \<^verbatim>\<open>default\<close> branch of
  \<^verbatim>\<open>keyToByte\<close> for every key.
\<close>

theorem C4_counterexample:
  "fst (badger_Store tagged_gob (test_badger_provider string_type) (string_key []) ''value'')
     = Some ErrEmptyKey
   \<and> badger_Get tagged_gob
        (snd (badger_Store tagged_gob (test_badger_provider string_type) (string_key [])
                ''value''))
        (string_key []) = Inl ErrEmptyKey
   \<and> fst (badger_Store tagged_gob (test_badger_provider named_string_type)
             (named_string_key ''key'') ''value'')
     = Some (errorString ''unknown key type (string, uint64 supported)'')
   \<and> badger_Get tagged_gob
        (snd (badger_Store tagged_gob (test_badger_provider named_string_type)
                (named_string_key ''key'') ''value''))
        (named_string_key ''key'')
     = Inl (errorString ''unknown key type (string, uint64 supported)'')"
  by (simp add: badger_Store_def badger_Get_def encodeToBytes_def tagged_gob_def
      db_Update_def db_View_def txn_Set_def txn_Get_def txn_modify_def mapError_Some_other
      test_badger_provider_def)

text \<open>
  C4 (amended). \<open>Store k v\<close> followed by \<open>Get k\<close> returns \<open>v\<close> with no error: in the
  file backend for every key type, key and value on a provider whose entries map is
  allocated, whatever the flush returns; in the engine backend for every writable key
  (a key of the built-in string or uint64 type whose bytes the engine accepts as a key)
  and every value that the codec encodes, within the engine's value limit, to bytes it
  decodes back to the value; \<open>Store\<close> then returns nil. Every key of type uint64 is
  writable, a key of type string is when the string is not empty, does not start with
  the engine's reserved prefix and has at most 65000 bytes, and no key of a named type
  is. For a key that is not writable \<open>Store\<close> returns an error and leaves the keyspace
  as it was.
\<close>

theorem C4_store_then_get:
  "(DataMap (data p) \<noteq> nil_map \<longrightarrow>
      (case Store m p fs k v of
         Return (err, p', fs') \<Rightarrow> Get p' k = Inr v
       | Panic msg \<Rightarrow> False))
   \<and> (writable_key bk \<and> gob_Encode g bv = Inr b \<and> length b \<le> value_limit bp
       \<and> gob_Decode g b = Inr bv \<longrightarrow>
        (case badger_Store g bp bk bv of (err, bp') \<Rightarrow>
           err = None \<and> badger_Get g bp' bk = Inr bv))
   \<and> writable_key (uint64_key n)
   \<and> writable_key (string_key s)
       = (s \<noteq> [] \<and> take (length badgerPrefix) s \<noteq> badgerPrefix \<and> length s \<le> maxKeySize)
   \<and> \<not> writable_key (named_string_key s) \<and> \<not> writable_key (named_uint64_key n)
   \<and> (\<not> writable_key bk \<longrightarrow>
        (case badger_Store g bp bk bv of (err, bp') \<Rightarrow> err \<noteq> None \<and> bp' = bp))"
proof -
  have filepart: "DataMap (data p) \<noteq> nil_map \<longrightarrow>
      (case Store m p fs k v of
         Return (err, p', fs') \<Rightarrow> Get p' k = Inr v
       | Panic msg \<Rightarrow> False)"
    by (simp add: Store_eq Get_def)
  have engine: "writable_key bk \<and> gob_Encode g bv = Inr b \<and> length b \<le> value_limit bp
       \<and> gob_Decode g b = Inr bv \<longrightarrow>
        (case badger_Store g bp bk bv of (err, bp') \<Rightarrow>
           err = None \<and> badger_Get g bp' bk = Inr bv)"
    by (simp add: badger_Store_eq badger_Get_present writable_readable)
  have uint64_keys: "writable_key (uint64_key n)"
    by (rule writable_uint64_key)
  have keys: "writable_key (string_key s)
       = (s \<noteq> [] \<and> take (length badgerPrefix) s \<noteq> badgerPrefix \<and> length s \<le> maxKeySize)"
    "\<not> writable_key (named_string_key s)" "\<not> writable_key (named_uint64_key n)"
    by (simp_all add: writable_key_def accepted_key_def)
  have refused: "\<not> writable_key bk \<longrightarrow>
        (case badger_Store g bp bk bv of (err, bp') \<Rightarrow> err \<noteq> None \<and> bp' = bp)"
    using badger_Store_not_writable [of bk g bp bv]
    by (simp add: case_prod_unfold)
  from filepart engine uint64_keys keys refused show ?thesis by blast
qed

theorem C4_store_then_get_witness:
  "DataMap (data test_file_provider) \<noteq> nil_map
   \<and> DataMap (data test_file_provider_uint64) \<noteq> nil_map
   \<and> is_Return (Store (constant_marshalers ''{}'') test_file_provider writable_fs
                  ''key'' ''value'')
   \<and> Get (fst (snd (returned (Store (constant_marshalers ''{}'') test_file_provider writable_fs
                                ''key'' ''value'')))) ''key'' = Inr ''value''
   \<and> Get (fst (snd (returned (Store (constant_marshalers ''{}'') test_file_provider_uint64
                                writable_fs 1 ''value'')))) 1 = Inr ''value''
   \<and> writable_key (uint64_key 1)
   \<and> gob_Encode tagged_gob ''value'' = Inr ''Vvalue''
   \<and> gob_Decode tagged_gob ''Vvalue'' = Inr ''value''
   \<and> fst (badger_Store tagged_gob (test_badger_provider uint64_type) (uint64_key 1) ''value'')
       = None
   \<and> badger_Get tagged_gob
        (snd (badger_Store tagged_gob (test_badger_provider uint64_type) (uint64_key 1) ''value''))
        (uint64_key 1) = Inr ''value''
   \<and> fst (badger_Store tagged_gob (test_badger_provider string_type) (string_key ''key'')
             ''value'') = None
   \<and> badger_Get tagged_gob
        (snd (badger_Store tagged_gob (test_badger_provider string_type) (string_key ''key'')
                ''value''))
        (string_key ''key'') = Inr ''value''
   \<and> \<not> writable_key (string_key ''!badger!head'')
   \<and> fst (badger_Store tagged_gob (test_badger_provider string_type)
             (string_key ''!badger!head'') ''value'') \<noteq> None
   \<and> snd (badger_Store tagged_gob (test_badger_provider string_type)
             (string_key ''!badger!head'') ''value'') = test_badger_provider string_type"
proof -
  have a: "DataMap (data test_file_provider) \<noteq> nil_map"
    "DataMap (data test_file_provider_uint64) \<noteq> nil_map"
    by (simp_all add: test_file_provider_def test_file_provider_uint64_def)
  have w: "writable_key (uint64_key 1)" "writable_key (string_key ''key'')"
    by (simp_all add: writable_uint64_key writable_string_key accepted_short_keys)
  have e: "gob_Encode tagged_gob ''value'' = Inr ''Vvalue''"
    and d: "gob_Decode tagged_gob ''Vvalue'' = Inr ''value''"
    by (simp_all add: tagged_gob_def)
  have l: "length ''Vvalue'' \<le> value_limit (test_badger_provider uint64_type)"
    "length ''Vvalue'' \<le> value_limit (test_badger_provider string_type)"
    by (simp_all add: test_badger_provider_fields)
  have n: "\<not> writable_key (string_key ''!badger!head'')"
    by (simp add: writable_string_key accepted_key_def badgerPrefix_def)
  show ?thesis
    using a w e d l n
      C4_store_then_get [where m = "constant_marshalers ''{}''" and p = test_file_provider
        and fs = writable_fs and k = "''key''" and v = "''value''" and g = tagged_gob
        and bv = "''value''" and b = "''Vvalue''" and bp = "test_badger_provider uint64_type"
        and bk = "uint64_key 1" and n = 1 and s = "''key''"]
      C4_store_then_get [where m = "constant_marshalers ''{}''"
        and p = test_file_provider_uint64 and fs = writable_fs and k = 1 and v = "''value''"
        and g = tagged_gob and bv = "''value''" and b = "''Vvalue''"
        and bp = "test_badger_provider string_type" and bk = "string_key ''key''" and n = 1 and s = "''key''"]
      C4_store_then_get [where m = "constant_marshalers ''{}''"
        and p = test_file_provider and fs = writable_fs and k = "''key''" and v = "''value''"
        and g = tagged_gob and bv = "''value''" and b = "''Vvalue''"
        and bp = "test_badger_provider string_type" and bk = "string_key ''!badger!head''" and n = 1 and s = "''key''"]
    by (auto simp add: case_prod_unfold split: result.splits)
qed




text \<open>
  C6 (counterexample). In the engine backend a list with an absent key does not always
  fail with NotFound. After \<open>Store key value\<close> and \<open>StoreReference alias key\<close> on the
  empty engine over string keys, the keyspace has no item under \<open>nokey\<close>, and
  \<open>GetMultiple [alias, nokey]\<close> returns the error with which the codec refuses the
  bytes of the alias's item, which is not the NotFound condition.
\<close>

theorem C6_counterexample:
  "db aliased_badger_provider (key_bytes (string_key ''nokey'')) = None
   \<and> badger_GetMultiple tagged_gob aliased_badger_provider
        [string_key ''alias'', string_key ''nokey'']
       = ([], Some (errorString ''unexpected EOF''))
   \<and> \<not> Is (Some (errorString ''unexpected EOF'')) NotFound"
proof -
  have "badger_Get tagged_gob aliased_badger_provider (string_key ''alias'')
          = Inl (errorString ''unexpected EOF'')"
    using badger_Get_item [of "string_key ''alias''" aliased_badger_provider "''key''" tagged_gob]
    by (simp add: readable_string_key key_bytes_string db_aliased tagged_gob_def
        mapError_Some_other)
  then show ?thesis
    by (simp add: badger_GetMultiple_def db_aliased key_bytes_string Is_def)
qed

text \<open>
  C6 (amended). \<open>GetMultiple\<close> returns the values of the keys in the order of the keys
  when every key holds a value (\<open>f k\<close> is the value of the key \<open>k\<close>), and otherwise
  the empty list with the error of the first key of the list whose \<open>Get\<close> fails. In the
  file backend that error is NotFound whenever some key is absent. In the engine backend
  a key holds a value when it is readable and the keyspace has an item under its bytes
  that decodes to the value; when the keys before the first failing one hold values and
  the keyspace has no item under that key, the error is the wrapped engine error, which
  satisfies \<open>Is _ NotFound\<close>; an item that does not decode, such as an alias, a key of a
  named type or the empty key gives the error of \<open>Get\<close> for it instead.
\<close>

theorem C6_get_multiple:
  "((\<forall>k\<in>set ks. contents (DataMap (data p)) k = Some (f k)) \<longrightarrow>
      GetMultiple p ks = (map f ks, None))
   \<and> ((\<exists>k\<in>set ks. contents (DataMap (data p)) k = None) \<longrightarrow>
        GetMultiple p ks = ([], Some NotFound))
   \<and> ((\<forall>k\<in>set bks. holds_value g bp k (bf k)) \<longrightarrow>
        badger_GetMultiple g bp bks = (map bf bks, None))
   \<and> ((\<forall>k\<in>set pre. holds_value g bp k (bf k)) \<and> holds_nothing bp bk \<longrightarrow>
        badger_GetMultiple g bp (pre @ bk # rest)
          = ([], Some (joinError [NotFound, ErrKeyNotFound]))
        \<and> Is (Some (joinError [NotFound, ErrKeyNotFound])) NotFound)
   \<and> ((\<forall>k\<in>set pre. holds_value g bp k (bf k)) \<and> badger_Get g bp bk = Inl e \<longrightarrow>
        badger_GetMultiple g bp (pre @ bk # rest) = ([], Some e))"
proof -
  have a: "(\<forall>k\<in>set ks. contents (DataMap (data p)) k = Some (f k)) \<longrightarrow>
      GetMultiple p ks = (map f ks, None)"
    using GetMultiple_loop_present [of ks p f "[]"] by (simp add: GetMultiple_def)
  have b: "(\<exists>k\<in>set ks. contents (DataMap (data p)) k = None) \<longrightarrow>
        GetMultiple p ks = ([], Some NotFound)"
    by (auto simp add: GetMultiple_def GetMultiple_loop_absent)
  have c: "(\<forall>k\<in>set bks. holds_value g bp k (bf k)) \<longrightarrow>
        badger_GetMultiple g bp bks = (map bf bks, None)"
    using badger_GetMultiple_loop_present [of bks g bp bf "[]"]
    by (simp add: badger_GetMultiple_def)
  have e: "(\<forall>k\<in>set pre. holds_value g bp k (bf k)) \<and> badger_Get g bp bk = Inl e \<longrightarrow>
        badger_GetMultiple g bp (pre @ bk # rest) = ([], Some e)" for e
    using badger_GetMultiple_loop_first_failure [of pre g bp bf bk e rest "[]"]
    by (simp add: badger_GetMultiple_def)
  have d: "(\<forall>k\<in>set pre. holds_value g bp k (bf k)) \<and> holds_nothing bp bk \<longrightarrow>
        badger_GetMultiple g bp (pre @ bk # rest)
          = ([], Some (joinError [NotFound, ErrKeyNotFound]))
        \<and> Is (Some (joinError [NotFound, ErrKeyNotFound])) NotFound"
    using e [of "joinError [NotFound, ErrKeyNotFound]"] holds_nothing_Get [of bp bk g]
    by (simp add: Is_wrapped_NotFound)
  from a b c d e show ?thesis by blast
qed

theorem C6_get_multiple_witness:
  "GetMultiple
     (fst (snd (returned (Store (constant_marshalers ''{}'')
                  (fst (snd (returned (Store (constant_marshalers ''{}'') test_file_provider
                                         writable_fs ''key1'' ''value1''))))
                  writable_fs ''key2'' ''value2''))))
     [''key2'', ''key1'', ''key2''] = ([''value2'', ''value1'', ''value2''], None)
   \<and> GetMultiple
     (fst (snd (returned (Store (constant_marshalers ''{}'') test_file_provider writable_fs
                            ''key1'' ''value1''))))
     [''key1'', ''key3''] = ([], Some NotFound)
   \<and> holds_value tagged_gob
        (snd (badger_Store tagged_gob (test_badger_provider string_type) (string_key ''key1'')
                ''value1''))
        (string_key ''key1'') ''value1''
   \<and> holds_nothing
        (snd (badger_Store tagged_gob (test_badger_provider string_type) (string_key ''key1'')
                ''value1''))
        (string_key ''key3'')
   \<and> badger_GetMultiple tagged_gob
        (snd (badger_Store tagged_gob (test_badger_provider string_type) (string_key ''key1'')
                ''value1''))
        [string_key ''key1'', string_key ''key1''] = ([''value1'', ''value1''], None)
   \<and> badger_GetMultiple tagged_gob
        (snd (badger_Store tagged_gob (test_badger_provider string_type) (string_key ''key1'')
                ''value1''))
        [string_key ''key1'', string_key ''key3'', string_key ''key1'']
       = ([], Some (joinError [NotFound, ErrKeyNotFound]))
   \<and> badger_GetMultiple tagged_gob
        (snd (badger_Store tagged_gob (test_badger_provider string_type) (string_key ''key1'')
                ''value1''))
        [string_key ''key1'', string_key []] = ([], Some ErrEmptyKey)"
proof -
  let ?m = "constant_marshalers ''{}'' :: (string, string) marshalers"
  let ?p1 = "fst (snd (returned (Store ?m test_file_provider writable_fs ''key1'' ''value1'')))"
  let ?p2 = "fst (snd (returned (Store ?m ?p1 writable_fs ''key2'' ''value2'')))"
  let ?bp = "snd (badger_Store tagged_gob (test_badger_provider string_type) (string_key ''key1'')
                    ''value1'')"
  let ?f = "\<lambda>k. if k = ''key1'' then ''value1'' else ''value2''"
  let ?bf = "\<lambda>k :: key. ''value1''"
  have m1: "contents (DataMap (data ?p1)) = [''key1'' \<mapsto> ''value1'']"
    by (simp add: Store_eq test_file_provider_def)
  have m2: "contents (DataMap (data ?p2)) = [''key1'' \<mapsto> ''value1'', ''key2'' \<mapsto> ''value2'']"
    by (simp add: Store_eq test_file_provider_def)
  have bdb: "db ?bp = [''key1'' \<mapsto> ''Vvalue1'']"
    using badger_Store_eq [of "string_key ''key1''" tagged_gob "''value1''" "''Vvalue1''"
        "test_badger_provider string_type"]
    by (simp add: writable_string_key accepted_short_keys tagged_gob_value
        test_badger_provider_fields key_bytes_string)
  have hv: "holds_value tagged_gob ?bp (string_key ''key1'') ''value1''"
    by (simp add: holds_value_def readable_string_key key_bytes_string bdb tagged_gob_value)
  have hn: "holds_nothing ?bp (string_key ''key3'')"
    by (simp add: holds_nothing_def readable_string_key key_bytes_string bdb)
  have ge: "badger_Get tagged_gob ?bp (string_key []) = Inl ErrEmptyKey"
    by (simp add: badger_Get_def db_View_def txn_Get_def mapError_Some_other)
  show ?thesis
    using hv hn ge
      C6_get_multiple [where p = ?p2 and ks = "[''key2'', ''key1'', ''key2'']" and f = ?f
        and bp = ?bp and bks = "[string_key ''key1'', string_key ''key1'']" and bf = ?bf
        and g = tagged_gob and pre = "[string_key ''key1'']" and bk = "string_key ''key3''"
        and rest = "[string_key ''key1'']" and e = ErrEmptyKey]
      C6_get_multiple [where p = ?p1 and ks = "[''key1'', ''key3'']" and f = ?f
        and bp = ?bp and bks = "[string_key ''key1'', string_key ''key1'']" and bf = ?bf
        and g = tagged_gob and pre = "[string_key ''key1'']" and bk = "string_key []"
        and rest = "[]" and e = ErrEmptyKey]
    by (simp add: m1 m2)
qed

text \<open>
  C7 (counterexample). In the engine backend \<open>ForEach\<close> scans the whole keyspace, and an
  alias is an item of it. After \<open>Store key value\<close> and \<open>StoreReference alias key\<close> on
  the empty engine, both of which return nil, the scan meets the alias first, fails to
  decode the bytes of the target key as a value, and returns that error without having
  visited the stored entry, which \<open>Get\<close> still returns.
\<close>

theorem C7_counterexample:
  "fst (badger_Store tagged_gob (test_badger_provider string_type) (string_key ''key'') ''value'')
     = None
   \<and> fst (badger_StoreReference
            (snd (badger_Store tagged_gob (test_badger_provider string_type)
                    (string_key ''key'') ''value''))
            (string_key ''alias'') (string_key ''key'')) = None
   \<and> badger_Get tagged_gob aliased_badger_provider (string_key ''key'') = Inr ''value''
   \<and> badger_ForEach tagged_gob aliased_badger_provider (record_calls always_continue) []
       = (Some (errorString ''unexpected EOF''), [])"
proof -
  have each: "badger_ForEach tagged_gob aliased_badger_provider (record_calls always_continue) []
       = (Some (errorString ''unexpected EOF''), [])"
    by (simp add: badger_ForEach_def iter_aliased K_aliased decodeFromBytes_def tagged_gob_def
        mapError_Some_other)
  have get: "badger_Get tagged_gob aliased_badger_provider (string_key ''key'') = Inr ''value''"
    using badger_Get_present [of "string_key ''key''" aliased_badger_provider "''Vvalue''"
        tagged_gob "''value''"]
    by (simp add: readable_string_key db_aliased key_bytes_string tagged_gob_value)
  have stored: "fst (badger_Store tagged_gob (test_badger_provider string_type)
                       (string_key ''key'') ''value'') = None"
    by (simp add: stored_key_value)
  from stored aliased_returns_nil get each show ?thesis
    by blast
qed

text \<open>
  C7 (amended). In the file backend, for every order \<open>entries\<close> in which the runtime
  ranges over the entries map, \<open>ForEach\<close> with a visitor that always continues calls the
  visitor on exactly the pairs of the map, each key once, and returns nil; with any
  visitor it calls the visitor on the entries up to and including the first one on which
  the visitor returns false, and returns nil. In the engine backend the same holds for
  the items of the keyspace in key order, decoded, provided the keyspace holds only data
  items: the scan also meets the items written by \<open>StoreReference\<close>.
\<close>

theorem C7_for_each:
  "(range_order (contents (DataMap (data p))) entries \<longrightarrow>
      ForEach p entries (record_calls always_continue) [] = (None, entries)
      \<and> distinct (map fst entries) \<and> set entries = Map.graph (contents (DataMap (data p)))
      \<and> ForEach p entries (record_calls f) [] = (None, until_stop f entries))
   \<and> (only_data_items g bp \<longrightarrow>
      badger_ForEach g bp (record_calls always_continue) []
        = (None, map (decode_item g (K bp)) (txn_Iterator (db bp)))
      \<and> distinct (map fst (map (decode_item g (K bp)) (txn_Iterator (db bp))))
      \<and> set (txn_Iterator (db bp)) = Map.graph (db bp)
      \<and> badger_ForEach g bp (record_calls bf) []
          = (None, until_stop bf (map (decode_item g (K bp)) (txn_Iterator (db bp)))))"
proof -
  have file_part: "ForEach p entries (record_calls always_continue) [] = (None, entries)
      \<and> distinct (map fst entries) \<and> set entries = Map.graph (contents (DataMap (data p)))
      \<and> ForEach p entries (record_calls f) [] = (None, until_stop f entries)"
    if ro: "range_order (contents (DataMap (data p))) entries"
  proof -
    have f1: "ForEach p entries (record_calls h) [] = (None, until_stop h entries)" for h
      by (simp add: ForEach_def ForEach_loop_record_calls)
    have d: "distinct (map fst entries)"
      using ro by (simp add: range_order_def)
    have s: "set entries = Map.graph (contents (DataMap (data p)))"
      using ro by (rule range_order_set)
    show ?thesis
      using f1 [of always_continue] f1 [of f] d s by (simp add: until_stop_always_continue)
  qed
  have engine_part: "badger_ForEach g bp (record_calls always_continue) []
        = (None, map (decode_item g (K bp)) (txn_Iterator (db bp)))
      \<and> distinct (map fst (map (decode_item g (K bp)) (txn_Iterator (db bp))))
      \<and> set (txn_Iterator (db bp)) = Map.graph (db bp)
      \<and> badger_ForEach g bp (record_calls bf) []
          = (None, until_stop bf (map (decode_item g (K bp)) (txn_Iterator (db bp))))"
    if odi: "only_data_items g bp"
  proof -
    have fin: "finite (dom (db bp))"
      using odi by (simp add: only_data_items_def)
    have items: "\<forall>item\<in>set (txn_Iterator (db bp)). data_item g (K bp) item"
      using odi by (rule only_data_items_Iterator)
    have b1: "badger_ForEach g bp (record_calls h) []
           = (None, until_stop h (map (decode_item g (K bp)) (txn_Iterator (db bp))))" for h
      by (simp add: badger_ForEach_def badger_ForEach_loop_record_calls [OF items] mapError_None)
    have bd: "distinct (map fst (map (decode_item g (K bp)) (txn_Iterator (db bp))))"
      using items txn_Iterator_items(2) [OF fin] by (rule decoded_keys_distinct)
    have bs: "set (txn_Iterator (db bp)) = Map.graph (db bp)"
      using fin by (rule txn_Iterator_items)
    show ?thesis
      using b1 [of always_continue] b1 [of bf] bd bs by (simp add: until_stop_always_continue)
  qed
  from file_part engine_part show ?thesis by blast
qed

theorem C7_for_each_witness:
  "only_data_items tagged_gob
     (snd (badger_Store tagged_gob
             (snd (badger_Store tagged_gob (test_badger_provider string_type)
                     (string_key ''key2'') ''value2''))
             (string_key ''key1'') ''value1''))
   \<and> range_order
     (contents (DataMap (data (fst (snd (returned (Store (constant_marshalers ''{}'')
                 (fst (snd (returned (Store (constant_marshalers ''{}'') test_file_provider
                                        writable_fs ''key1'' ''value1''))))
                 writable_fs ''key2'' ''value2'')))))))
     [(''key2'', ''value2''), (''key1'', ''value1'')]
   \<and> ForEach
        (fst (snd (returned (Store (constant_marshalers ''{}'')
                     (fst (snd (returned (Store (constant_marshalers ''{}'') test_file_provider
                                            writable_fs ''key1'' ''value1''))))
                     writable_fs ''key2'' ''value2''))))
        [(''key2'', ''value2''), (''key1'', ''value1'')] (record_calls always_continue) []
       = (None, [(''key2'', ''value2''), (''key1'', ''value1'')])
   \<and> ForEach
        (fst (snd (returned (Store (constant_marshalers ''{}'')
                     (fst (snd (returned (Store (constant_marshalers ''{}'') test_file_provider
                                            writable_fs ''key1'' ''value1''))))
                     writable_fs ''key2'' ''value2''))))
        [(''key2'', ''value2''), (''key1'', ''value1'')] (record_calls (stop_at ''key2'')) []
       = (None, [(''key2'', ''value2'')])
   \<and> badger_ForEach tagged_gob
        (snd (badger_Store tagged_gob
                (snd (badger_Store tagged_gob (test_badger_provider string_type)
                        (string_key ''key2'') ''value2''))
                (string_key ''key1'') ''value1''))
        (record_calls always_continue) []
       = (None, [(string_key ''key1'', ''value1''), (string_key ''key2'', ''value2'')])
   \<and> badger_ForEach tagged_gob
        (snd (badger_Store tagged_gob
                (snd (badger_Store tagged_gob (test_badger_provider string_type)
                        (string_key ''key2'') ''value2''))
                (string_key ''key1'') ''value1''))
        (record_calls (stop_at (string_key ''key1''))) []
       = (None, [(string_key ''key1'', ''value1'')])"
proof -
  let ?m = "constant_marshalers ''{}'' :: (string, string) marshalers"
  let ?p = "fst (snd (returned (Store ?m
                     (fst (snd (returned (Store ?m test_file_provider writable_fs
                                            ''key1'' ''value1''))))
                     writable_fs ''key2'' ''value2'')))"
  let ?b0 = "test_badger_provider string_type"
  let ?b1 = "snd (badger_Store tagged_gob ?b0 (string_key ''key2'') ''value2'')"
  let ?bp = "snd (badger_Store tagged_gob ?b1 (string_key ''key1'') ''value1'')"
  let ?entries = "[(''key2'', ''value2''), (''key1'', ''value1'')]"
  have m: "contents (DataMap (data ?p)) = [''key1'' \<mapsto> ''value1'', ''key2'' \<mapsto> ''value2'']"
    by (simp add: Store_eq test_file_provider_def)
  have ro: "range_order (contents (DataMap (data ?p))) ?entries"
    unfolding m by (auto simp add: range_order_def)
  have w: "writable_key (string_key ''key1'')" "writable_key (string_key ''key2'')"
    by (simp_all add: writable_string_key accepted_short_keys)
  have b1: "?b1 = ?b0\<lparr>db := [''key2'' \<mapsto> ''Vvalue2'']\<rparr>"
    using badger_Store_eq [of "string_key ''key2''" tagged_gob "''value2''" "''Vvalue2''" ?b0]
    by (simp add: w tagged_gob_value test_badger_provider_fields key_bytes_string)
  have b2: "?bp = ?b0\<lparr>db := [''key2'' \<mapsto> ''Vvalue2'', ''key1'' \<mapsto> ''Vvalue1'']\<rparr>"
    using badger_Store_eq [of "string_key ''key1''" tagged_gob "''value1''" "''Vvalue1''"
        "?b0\<lparr>db := [''key2'' \<mapsto> ''Vvalue2'']\<rparr>"]
    by (simp add: b1 w tagged_gob_value test_badger_provider_fields key_bytes_string)
  have bdb: "db ?bp = [''key2'' \<mapsto> ''Vvalue2'', ''key1'' \<mapsto> ''Vvalue1'']"
    and kt: "K ?bp = string_type"
    by (simp_all add: b2 test_badger_provider_fields)
  have dom: "dom (db ?bp) = {''key1'', ''key2''}"
    unfolding bdb by auto
  have sorted: "sorted_list_of_set {''key1'', ''key2''} = [''key1'', ''key2'']"
    by code_simp
  have iter: "txn_Iterator (db ?bp) = [(''key1'', ''Vvalue1''), (''key2'', ''Vvalue2'')]"
    unfolding txn_Iterator_def dom sorted by (simp add: bdb)
  have odi0: "only_data_items tagged_gob ?b0"
    by (rule only_data_items_empty) (simp add: test_badger_provider_fields)
  have odi1: "only_data_items tagged_gob ?b1"
    by (rule only_data_items_Store [OF odi0 _ w(2), where b = "''Vvalue2''" and v' = "''value2''"])
      (simp_all add: tagged_gob_value test_badger_provider_fields)
  have odi: "only_data_items tagged_gob ?bp"
    by (rule only_data_items_Store [OF odi1 _ w(1), where b = "''Vvalue1''" and v' = "''value1''"])
      (simp_all add: b1 tagged_gob_value test_badger_provider_fields)
  have decoded:
    "decode_item tagged_gob string_type (''key1'', ''Vvalue1'') = (string_key ''key1'', ''value1'')"
    "decode_item tagged_gob string_type (''key2'', ''Vvalue2'') = (string_key ''key2'', ''value2'')"
    by (simp_all add: decode_item_def decodeFromBytes_def tagged_gob_def)
  show ?thesis
    using ro odi
      C7_for_each [where p = ?p and entries = ?entries and f = "stop_at ''key2''"
        and bp = ?bp and g = tagged_gob and bf = "stop_at (string_key ''key1'')"]
    by (simp add: iter kt decoded until_stop_Cons until_stop_Nil stop_at_def)
qed

text \<open>
  C8. The selector calls the engine backend's constructor whenever the engine
  configuration is present, whether or not the file configuration is present too, and
  returns what that constructor returns; it calls the file backend's constructor when only
  the file configuration is present; and it fails with the error ``storage provider is
  not configured'' when neither is present.
\<close>

theorem C8_selector_priority:
  "(Badger c = Some b \<longrightarrow>
      GetKeyValueProviderFromConfig badger_New file_New c = map_sum (\<lambda>e. e) badger_backend (badger_New b))
   \<and> (Badger c = None \<and> File c = Some f \<longrightarrow>
      GetKeyValueProviderFromConfig badger_New file_New c = map_sum (\<lambda>e. e) file_backend (file_New f))
   \<and> (Badger c = None \<and> File c = None \<longrightarrow>
      GetKeyValueProviderFromConfig badger_New file_New c
        = Inl (errorString ''storage provider is not configured''))"
  by (simp add: GetKeyValueProviderFromConfig_def)

theorem C8_selector_priority_witness:
  "GetKeyValueProviderFromConfig Inr Inr
     \<lparr>Badger = Some \<lparr>DirectoryPath = None, InMemory = True\<rparr>,
      File = Some \<lparr>Path = ''/tmp/test.yaml'', Content = []\<rparr>\<rparr>
     = Inr (badger_backend \<lparr>DirectoryPath = None, InMemory = True\<rparr>)
   \<and> GetKeyValueProviderFromConfig Inr Inr
       \<lparr>Badger = Some \<lparr>DirectoryPath = None, InMemory = True\<rparr>, File = None\<rparr>
     = Inr (badger_backend \<lparr>DirectoryPath = None, InMemory = True\<rparr>)
   \<and> GetKeyValueProviderFromConfig Inr Inr
       \<lparr>Badger = None, File = Some \<lparr>Path = ''/tmp/test.yaml'', Content = []\<rparr>\<rparr>
     = Inr (file_backend \<lparr>Path = ''/tmp/test.yaml'', Content = []\<rparr>)
   \<and> (GetKeyValueProviderFromConfig Inr Inr \<lparr>Badger = None, File = None\<rparr>
         :: error + (badger_Config, Config) KeyValueProvider)
     = Inl (errorString ''storage provider is not configured'')"
  using
    C8_selector_priority [where badger_New = Inr and file_New = Inr
      and c = "\<lparr>Badger = Some \<lparr>DirectoryPath = None, InMemory = True\<rparr>,
                 File = Some \<lparr>Path = ''/tmp/test.yaml'', Content = []\<rparr>\<rparr>"
      and b = "\<lparr>DirectoryPath = None, InMemory = True\<rparr>"]
    C8_selector_priority [where badger_New = Inr and file_New = Inr
      and c = "\<lparr>Badger = Some \<lparr>DirectoryPath = None, InMemory = True\<rparr>, File = None\<rparr>"
      and b = "\<lparr>DirectoryPath = None, InMemory = True\<rparr>"]
    C8_selector_priority [where badger_New = Inr and file_New = Inr
      and c = "\<lparr>Badger = None, File = Some \<lparr>Path = ''/tmp/test.yaml'', Content = []\<rparr>\<rparr>"
      and f = "\<lparr>Path = ''/tmp/test.yaml'', Content = []\<rparr>"]
    C8_selector_priority [where badger_New = "Inr :: badger_Config \<Rightarrow> error + badger_Config"
      and file_New = "Inr :: Config \<Rightarrow> error + Config"
      and c = "\<lparr>Badger = None, File = None\<rparr>"]
  by simp

text \<open>
  C9. In the snapshot file backend \<open>Remove\<close> leaves the references map as it was, for
  every key, whether the key is present or not and whatever the flush returns: a
  reference whose target is the removed key stays stored, and is dangling afterwards
  (\<open>GetByReference\<close> returns \<open>NotFound\<close> for it). \<open>RemoveReference\<close> likewise leaves
  the entries map as it was.
\<close>

theorem C9_remove_frames:
  "(case Remove m p fs k of (err, p', fs') \<Rightarrow>
      References (data p') = References (data p)
      \<and> (contents (References (data p)) r' = Some k \<longrightarrow>
           contents (References (data p')) r' = Some k \<and> GetByReference p' r' = Inl NotFound))
   \<and> (case RemoveReference m p fs r of (err, p', fs') \<Rightarrow> DataMap (data p') = DataMap (data p))"
proof -
  have a: "References (data (fst (snd (Remove m p fs k)))) = References (data p)"
    by (simp add: provider_of_Remove split: option.split)
  have b: "contents (DataMap (data (fst (snd (Remove m p fs k))))) k = None"
    by (simp add: provider_of_Remove contents_delete split: option.split)
  have c: "DataMap (data (fst (snd (RemoveReference m p fs r)))) = DataMap (data p)"
    by (simp add: provider_of_RemoveReference split: option.split)
  show ?thesis
    using a b c by (simp add: case_prod_unfold GetByReference_def)
qed

theorem C9_remove_frames_witness:
  "contents (References
     (data (fst (snd (returned (StoreReference (constant_marshalers ''{}'')
                        (fst (snd (returned (Store (constant_marshalers ''{}'') test_file_provider
                                               writable_fs ''key'' ''value''))))
                        writable_fs ''ref'' ''key'')))))) ''ref'' = Some ''key''
   \<and> contents (References
       (data (fst (snd (Remove (constant_marshalers ''{}'')
                  (fst (snd (returned (StoreReference (constant_marshalers ''{}'')
                               (fst (snd (returned (Store (constant_marshalers ''{}'')
                                                      test_file_provider
                                                      writable_fs ''key'' ''value''))))
                               writable_fs ''ref'' ''key''))))
                  writable_fs ''key''))))) ''ref'' = Some ''key''
   \<and> GetByReference
       (fst (snd (Remove (constant_marshalers ''{}'')
                  (fst (snd (returned (StoreReference (constant_marshalers ''{}'')
                               (fst (snd (returned (Store (constant_marshalers ''{}'')
                                                      test_file_provider
                                                      writable_fs ''key'' ''value''))))
                               writable_fs ''ref'' ''key''))))
                  writable_fs ''key''))) ''ref'' = Inl NotFound"
proof -
  let ?m = "constant_marshalers ''{}'' :: (string, string) marshalers"
  let ?p = "fst (snd (returned (StoreReference ?m
                        (fst (snd (returned (Store ?m test_file_provider writable_fs
                                               ''key'' ''value''))))
                        writable_fs ''ref'' ''key'')))"
  have r: "contents (References (data ?p)) ''ref'' = Some ''key''"
    by (simp add: Store_eq StoreReference_eq test_file_provider_def)
  show ?thesis
    using r C9_remove_frames [where m = ?m and p = ?p and fs = writable_fs and k = "''key''"
        and r' = "''ref''"]
    by (simp add: case_prod_unfold)
qed

text \<open>
  C10 (evaluation at the failing input). The claim is that \<open>Store\<close> and
  \<open>StoreReference\<close> apply their change to the in-memory maps and, when the file write
  fails, return an error with the change retained. \<^verbatim>\<open>New\<close> allocates both maps, but
  decoding the inline content \<^verbatim>\<open>data: null\<close> (or \<^verbatim>\<open>references: null\<close>) into them
  leaves the map nil: on the provider it returns, \<open>Store\<close> (or \<open>StoreReference\<close>)
  panics at the assignment, before the flush is reached. It returns no error, and
  nothing is retained: \<open>Get\<close> on the provider still returns \<open>NotFound\<close>. On the
  provider of the test suite, whose maps are allocated, the same calls with the same
  refusing file system return the error of the write with the change retained.
\<close>

theorem C10_assignment_to_nil_map:
  "Store (constant_marshalers ''{}'') null_data_provider refusing_fs ''key'' ''value''
     = Panic ''assignment to entry in nil map''
   \<and> Get null_data_provider ''key'' = Inl NotFound
   \<and> StoreReference (constant_marshalers ''{}'') null_references_provider refusing_fs
        ''ref'' ''key''
     = Panic ''assignment to entry in nil map''
   \<and> GetByReference null_references_provider ''ref'' = Inl NotFound
   \<and> fst (returned (Store (constant_marshalers ''{}'') test_file_provider refusing_fs
                       ''key'' ''value''))
     = Some (errorString ''permission denied'')
   \<and> Get (fst (snd (returned (Store (constant_marshalers ''{}'') test_file_provider refusing_fs
                                ''key'' ''value'')))) ''key'' = Inr ''value''"
proof -
  have s1: "saveToFile (constant_marshalers ''{}'') (test_file_provider\<lparr>data := d\<rparr>) refusing_fs
              = (Some (errorString ''permission denied''), refusing_fs)" for d
    by (simp add: saveToFile_def os_WriteFile_def test_file_provider_def refusing_fs_def
        constant_marshalers_def)
  have a: "DataMap (data test_file_provider) \<noteq> nil_map"
    by (simp add: test_file_provider_def)
  show ?thesis
    by (simp add: Store_nil StoreReference_nil null_data_provider_def
        null_references_provider_def Get_def GetByReference_def Store_eq [OF a] s1)
qed


end
